theory Spec2Isabelle
  imports Complex_Main
begin

section \<open>Data model\<close>

text \<open>
  The program keeps an item as a Python dictionary with the keys
  \<^verbatim>\<open>id, nome, categoria, l, w, h, vol, mass, f, o, prioridade, destino\<close>.
  The record below has one field per key; the prefix \<open>item_\<close> keeps the one-letter
  keys apart from variables and from function composition.
  \<^item> \<open>vol\<close> and \<open>mass\<close> are Python integers (\<^verbatim>\<open>int(vol * SCALE_VOL)\<close>,
    \<^verbatim>\<open>int(mass * SCALE_MASS)\<close>), hence \<open>int\<close>;
  \<^item> \<open>f\<close> (fragile) and \<open>o\<close> (rotatable) are integers used as truth values: a value is
    true exactly when it is not 0;
  \<^item> \<open>prioridade\<close> is read with \<^verbatim>\<open>itens[i].get('prioridade', 1)\<close>, so a dictionary
    without that key is \<open>None\<close>;
  \<^item> the dimensions are Python floats, modelled as reals.
\<close>

record item =
  item_id :: int
  item_nome :: string
  item_categoria :: string
  item_l :: real
  item_w :: real
  item_h :: real
  item_vol :: int
  item_mass :: int
  item_f :: int
  item_o :: int
  item_prioridade :: "int option"
  item_destino :: string

text \<open>
  The pallet configuration with integer capacities, as the presets and the scenario
  comparison of \<^verbatim>\<open>main\<close> build it; \<open>tipo\<close> is a label. The dictionary with any
  Python number as a capacity is \<open>config_dict\<close> below.
\<close>

record pallets_config =
  quantidade :: int
  capacidade_massa :: int
  capacidade_volume :: int
  tipo :: string

definition SCALE_VOL :: int where
  "SCALE_VOL = 1000000"

definition SCALE_MASS :: int where
  "SCALE_MASS = 1000"

section \<open>The constraint model handed to the solver\<close>

text \<open>
  \<^verbatim>\<open>otimizar\<close> creates Boolean variables and stores them in three dictionaries:
  \<^verbatim>\<open>x[i, p]\<close> (item \<open>i\<close> is on pallet \<open>p\<close>), \<^verbatim>\<open>r[i, k]\<close> (item \<open>i\<close> uses
  orientation \<open>k\<close>) and \<^verbatim>\<open>s[i, j]\<close> (item \<open>i\<close> rests on item \<open>j\<close>). The variable stored
  under a key is named by the constructor and the key, so the lookup \<^verbatim>\<open>x[i, p]\<close> is the
  term \<open>X i p\<close>.
\<close>

datatype var = X nat nat | R nat nat | S nat nat

text \<open>
  Every call of \<^verbatim>\<open>model.Add\<close> in the program adds a linear constraint
  \<open>\<Sum> c\<^sub>j \<cdot> v\<^sub>j \<le> b\<close> or \<open>\<Sum> c\<^sub>j \<cdot> v\<^sub>j = b\<close> with integer coefficients. A sum over an
  empty range, and a variable multiplied by the coefficient 0, is the Python integer 0;
  when nothing else is left the comparison is a Python Boolean, which the solver
  library takes as the constant constraint of that truth value. The linear constraint
  with the same terms has that truth value under all values of the variables.
\<close>

datatype rel = LE | EQ

datatype restricao = Lin "(int \<times> var) list" rel int

datatype objetivo = SemObjetivo | Maximize "(int \<times> var) list"

record cp_model =
  variaveis :: "var list"
  restricoes :: "restricao list"
  objetivo :: objetivo

text \<open>
  What the solver interface promises (the program relies on it, it does not implement
  it): \<^verbatim>\<open>solver.Value\<close> gives every Boolean variable the value 0 or 1, and when the
  status is \<^verbatim>\<open>OPTIMAL\<close> or \<^verbatim>\<open>FEASIBLE\<close> these values satisfy every constraint
  that was added to the model.
\<close>

definition valor_lin :: "(var \<Rightarrow> int) \<Rightarrow> (int \<times> var) list \<Rightarrow> int" where
  "valor_lin val ts = sum_list (map (\<lambda>(c, v). c * val v) ts)"

fun vale :: "(var \<Rightarrow> int) \<Rightarrow> restricao \<Rightarrow> bool" where
  "vale val (Lin ts LE b) = (valor_lin val ts \<le> b)"
| "vale val (Lin ts EQ b) = (valor_lin val ts = b)"

definition satisfaz :: "(var \<Rightarrow> int) \<Rightarrow> cp_model \<Rightarrow> bool" where
  "satisfaz val m =
     (list_all (\<lambda>v. val v = 0 \<or> val v = 1) (variaveis m) \<and>
      list_all (vale val) (restricoes m))"

section \<open>\<^verbatim>\<open>PalletOptimizer.otimizar\<close>: building the model\<close>

text \<open>Lines 97 to 104: the variables, in the order of their creation.\<close>

definition criar_variaveis :: "nat \<Rightarrow> nat \<Rightarrow> var list" where
  "criar_variaveis n num_pallets =
     concat (map (\<lambda>i. map (X i) [0..<num_pallets] @ map (R i) [0..<6] @
                       map (S i) (filter (\<lambda>j. i \<noteq> j) [0..<n]))
                 [0..<n])"

text \<open>
  Lines 107 to 117, the body of the loop for one item \<open>i\<close>: at most one pallet, and the
  rotation constraints.
\<close>

definition restricoes_item :: "item list \<Rightarrow> nat \<Rightarrow> nat \<Rightarrow> restricao list" where
  "restricoes_item itens num_pallets i =
     Lin (map (\<lambda>p. (1, X i p)) [0..<num_pallets]) LE 1 #
     (if item_o (itens ! i) \<noteq> 0
      then [Lin (map (\<lambda>k. (1, R i k)) [0..<6]) EQ 1]
      else Lin [(1, R i 0)] EQ 1 # map (\<lambda>k. Lin [(1, R i k)] EQ 0) [1..<6])"

text \<open>Lines 120 to 129, the body of the two nested loops for one pair \<open>(i, j)\<close>.\<close>

definition restricoes_par :: "item list \<Rightarrow> nat \<Rightarrow> nat \<Rightarrow> restricao list" where
  "restricoes_par itens i j =
     (if i = j then []
      else (if item_f (itens ! j) \<noteq> 0 then [Lin [(1, S i j)] EQ 0] else []) @
           (if item_mass (itens ! i) > item_mass (itens ! j)
            then [Lin [(1, S i j)] EQ 0] else []))"

text \<open>Lines 132 to 138, the body of the loop for one pallet \<open>p\<close>.\<close>

definition restricoes_palete :: "item list \<Rightarrow> pallets_config \<Rightarrow> nat \<Rightarrow> restricao list" where
  "restricoes_palete itens pallets_config p =
     [Lin (map (\<lambda>i. (item_mass (itens ! i), X i p)) [0..<length itens]) LE
          (capacidade_massa pallets_config),
      Lin (map (\<lambda>i. (item_vol (itens ! i), X i p)) [0..<length itens]) LE
          (capacidade_volume pallets_config)]"

text \<open>Line 142: \<^verbatim>\<open>itens[i].get('prioridade', 1)\<close>.\<close>

definition get_prioridade :: "item \<Rightarrow> int" where
  "get_prioridade it = (case item_prioridade it of Some q \<Rightarrow> q | None \<Rightarrow> 1)"

text \<open>
  The solver library keeps the coefficients of a linear expression as signed 64-bit
  integers. A product \<^verbatim>\<open>x * a * b\<close> is the variable with coefficient \<open>a\<close> multiplied
  by \<open>b\<close>, and the library takes that product of two coefficients in 64-bit arithmetic:
  it wraps around.
\<close>

definition int64 :: "int \<Rightarrow> bool" where
  "int64 z = (- (2 ^ 63) \<le> z \<and> z < 2 ^ 63)"

definition wrap64 :: "int \<Rightarrow> int" where
  "wrap64 z = (z + 2 ^ 63) mod 2 ^ 64 - 2 ^ 63"

text \<open>
  Lines 141 to 145: the terms of the objective, item by item and pallet by pallet, each
  \<^verbatim>\<open>x[i, p] * itens[i]['vol'] * itens[i].get('prioridade', 1)\<close>.
\<close>

definition termos_objetivo :: "item list \<Rightarrow> nat \<Rightarrow> (int \<times> var) list" where
  "termos_objetivo itens num_pallets =
     concat (map (\<lambda>i. map (\<lambda>p. (wrap64 (item_vol (itens ! i) * get_prioridade (itens ! i)),
                                  X i p))
                           [0..<num_pallets])
                 [0..<length itens])"

text \<open>
  The model as it stands when \<^verbatim>\<open>solver.Solve(model)\<close> is called (line 151).
  \<^verbatim>\<open>range(num_pallets)\<close> is empty for a count below 1, which is what \<open>nat\<close> gives.
\<close>

definition otimizar_model :: "item list \<Rightarrow> pallets_config \<Rightarrow> cp_model" where
  "otimizar_model itens pallets_config =
     (let n = length itens;
          num_pallets = nat (quantidade pallets_config)
      in \<lparr> variaveis = criar_variaveis n num_pallets,
           restricoes =
             concat (map (restricoes_item itens num_pallets) [0..<n]) @
             concat (map (\<lambda>i. concat (map (restricoes_par itens i) [0..<n])) [0..<n]) @
             concat (map (restricoes_palete itens pallets_config) [0..<num_pallets]),
           objetivo = Maximize (termos_objetivo itens num_pallets) \<rparr>)"

text \<open>
  The loops that read a solution (lines 180 and 181, 235 and 236) visit the items in
  index order and keep those whose variable has the value 1.
\<close>

definition itens_na_palete :: "(var \<Rightarrow> int) \<Rightarrow> nat \<Rightarrow> nat \<Rightarrow> nat list" where
  "itens_na_palete val n p = filter (\<lambda>i. val (X i p) = 1) [0..<n]"

section \<open>\<^verbatim>\<open>PalletOptimizer.otimizar\<close>: solving\<close>

text \<open>
  The status values of the solver library. The solver itself is outside the program: it
  is a parameter \<open>solve\<close> that takes the model and gives back a status and the function
  \<^verbatim>\<open>solver.Value\<close>. The 30 second limit (line 150) bounds its running time and has
  no counterpart here.
\<close>

datatype cp_status = UNKNOWN | MODEL_INVALID | FEASIBLE | INFEASIBLE | OPTIMAL

text \<open>
  The ways a call can end without a result. \<open>ZeroDivisionError\<close>, \<open>StopIteration\<close>
  and \<open>TypeError\<close> are the Python exceptions that the modelled functions can raise.
  \<open>InvalidConfiguration\<close> is the error the specification names; no statement of the
  program raises it, so no function below produces it.
\<close>

datatype erro = InvalidConfiguration | ZeroDivisionError | StopIteration | TypeError

text \<open>
  Lines 87 to 156 on an integer configuration, once the model is built. The program
  returns \<^verbatim>\<open>(solver, x, r, s, status)\<close>, or \<^verbatim>\<open>(None, None, None, None, status)\<close>;
  the dictionaries \<open>x\<close>, \<open>r\<close>, \<open>s\<close> are the constructors of \<open>var\<close> and are present
  exactly when the solver is, so the result keeps the solver and the status. The calls
  of the solver library that can refuse a number while the model is being built are in
  \<open>otimizar_dict\<close> below, which ends in this function when none of them does.
\<close>

definition otimizar ::
  "(cp_model \<Rightarrow> cp_status \<times> (var \<Rightarrow> int)) \<Rightarrow> item list \<Rightarrow> pallets_config \<Rightarrow>
     erro + ((var \<Rightarrow> int) option \<times> cp_status)" where
  "otimizar solve itens pallets_config =
     (let model = otimizar_model itens pallets_config;
          (status, solver) = solve model
      in if status = OPTIMAL \<or> status = FEASIBLE
         then Inr (Some solver, status)
         else Inr (None, status))"

text \<open>
  The contract of the solver library towards the program: a status \<open>OPTIMAL\<close> or
  \<open>FEASIBLE\<close> comes with values that satisfy the model.
\<close>

definition solver_correto :: "(cp_model \<Rightarrow> cp_status \<times> (var \<Rightarrow> int)) \<Rightarrow> bool" where
  "solver_correto solve =
     (\<forall>m. (fst (solve m) = OPTIMAL \<or> fst (solve m) = FEASIBLE) \<longrightarrow>
          satisfaz (snd (solve m)) m)"

section \<open>\<^verbatim>\<open>PalletOptimizer.otimizar\<close>: the numbers the solver library refuses\<close>

text \<open>
  A Python number, and the dictionary \<^verbatim>\<open>pallets_config\<close> as \<^verbatim>\<open>main\<close> can build
  it: the presets give integer capacities, the preset \<^verbatim>\<open>Personalizada\<close> (lines 365
  and 366) gives floats, \<^verbatim>\<open>st.number_input(..., value=1000.0) * SCALE_MASS\<close>.
\<close>

datatype numero = PyInt int | PyFloat real

record config_dict =
  d_quantidade :: int
  d_capacidade_massa :: numero
  d_capacidade_volume :: numero
  d_tipo :: string

text \<open>
  The three operations of the solver library on numbers that \<^verbatim>\<open>otimizar\<close> uses.
  \<^item> \<^verbatim>\<open>x[i, p] * c\<close> (lines 134, 137, 142): the variable with the coefficient \<open>c\<close>;
    the library refuses, with \<open>TypeError\<close>, an integer outside the 64-bit range.
  \<^item> \<^verbatim>\<open>(x[i, p] * a) * b\<close> (line 142): the coefficient becomes the 64-bit product of
    \<open>a\<close> and \<open>b\<close>; an integer \<open>b\<close> outside the 64-bit range is refused in the same
    way.
  \<^item> \<^verbatim>\<open>sum(...) <= b\<close> (lines 134, 137): a sum over no item at all is the Python
    integer 0 and the comparison is Python's own, \<open>0 \<le> b\<close>, for an integer and for a
    float; it is kept as the constraint with no term and the bound \<open>\<lfloor>b\<rfloor>\<close>, which has
    the same truth value. Otherwise the sum is a linear expression of the library, which
    accepts a 64-bit integer as the bound and refuses, with \<open>TypeError\<close>, a float and
    an integer outside that range.
\<close>

definition vezes :: "var \<Rightarrow> int \<Rightarrow> erro + (int \<times> var)" where
  "vezes v c = (if int64 c then Inr (c, v) else Inl TypeError)"

definition vezes2 :: "int \<times> var \<Rightarrow> int \<Rightarrow> erro + (int \<times> var)" where
  "vezes2 t b = (if int64 b then Inr (wrap64 (fst t * b), snd t) else Inl TypeError)"

fun inteiro :: "numero \<Rightarrow> int" where
  "inteiro (PyInt z) = z"
| "inteiro (PyFloat r) = \<lfloor>r\<rfloor>"

definition menor_igual :: "(int \<times> var) list \<Rightarrow> numero \<Rightarrow> erro + restricao" where
  "menor_igual ts b =
     (if ts = [] then Inr (Lin [] LE (inteiro b))
      else (case b of
              PyInt z \<Rightarrow> if int64 z then Inr (Lin ts LE z) else Inl TypeError
            | PyFloat r \<Rightarrow> Inl TypeError))"

text \<open>
  A generator expression or a loop whose steps can raise: the steps run in order and the
  first exception ends the whole.
\<close>

fun todos :: "('a \<Rightarrow> erro + 'b) \<Rightarrow> 'a list \<Rightarrow> erro + 'b list" where
  "todos f [] = Inr []"
| "todos f (x # xs) =
     (case f x of
        Inl e \<Rightarrow> Inl e
      | Inr y \<Rightarrow> (case todos f xs of Inl e \<Rightarrow> Inl e | Inr ys \<Rightarrow> Inr (y # ys)))"

text \<open>Lines 132 to 138, the body of the loop for one pallet \<open>p\<close>, on the dictionary.\<close>

definition restricoes_palete_dict ::
  "item list \<Rightarrow> config_dict \<Rightarrow> nat \<Rightarrow> erro + restricao list" where
  "restricoes_palete_dict itens pallets_config p =
     (case todos (\<lambda>i. vezes (X i p) (item_mass (itens ! i))) [0..<length itens] of
        Inl e \<Rightarrow> Inl e
      | Inr tm \<Rightarrow>
         (case menor_igual tm (d_capacidade_massa pallets_config) of
            Inl e \<Rightarrow> Inl e
          | Inr rm \<Rightarrow>
             (case todos (\<lambda>i. vezes (X i p) (item_vol (itens ! i))) [0..<length itens] of
                Inl e \<Rightarrow> Inl e
              | Inr tv \<Rightarrow>
                 (case menor_igual tv (d_capacidade_volume pallets_config) of
                    Inl e \<Rightarrow> Inl e
                  | Inr rv \<Rightarrow> Inr [rm, rv]))))"

text \<open>Lines 141 to 145 on the dictionary: the generator runs over \<open>i\<close>, then over \<open>p\<close>.\<close>

definition termos_objetivo_dict :: "item list \<Rightarrow> nat \<Rightarrow> erro + (int \<times> var) list" where
  "termos_objetivo_dict itens num_pallets =
     todos (\<lambda>(i, p). case vezes (X i p) (item_vol (itens ! i)) of
                        Inl e \<Rightarrow> Inl e
                      | Inr t \<Rightarrow> vezes2 t (get_prioridade (itens ! i)))
           (concat (map (\<lambda>i. map (\<lambda>p. (i, p)) [0..<num_pallets]) [0..<length itens]))"

text \<open>
  Lines 87 to 146 on the dictionary: the model when \<^verbatim>\<open>solver.Solve(model)\<close> is
  reached, or the exception that ended the call before. The variables and the
  constraints of lines 107 to 129 involve no number of the input.
\<close>

definition otimizar_model_dict :: "item list \<Rightarrow> config_dict \<Rightarrow> erro + cp_model" where
  "otimizar_model_dict itens pallets_config =
     (let n = length itens;
          num_pallets = nat (d_quantidade pallets_config)
      in case todos (restricoes_palete_dict itens pallets_config) [0..<num_pallets] of
           Inl e \<Rightarrow> Inl e
         | Inr rps \<Rightarrow>
            (case termos_objetivo_dict itens num_pallets of
               Inl e \<Rightarrow> Inl e
             | Inr ts \<Rightarrow>
                Inr \<lparr> variaveis = criar_variaveis n num_pallets,
                      restricoes =
                        concat (map (restricoes_item itens num_pallets) [0..<n]) @
                        concat (map (\<lambda>i. concat (map (restricoes_par itens i) [0..<n]))
                                    [0..<n]) @
                        concat rps,
                      objetivo = Maximize ts \<rparr>))"

text \<open>Lines 85 to 156 on the dictionary.\<close>

definition otimizar_dict ::
  "(cp_model \<Rightarrow> cp_status \<times> (var \<Rightarrow> int)) \<Rightarrow> item list \<Rightarrow> config_dict \<Rightarrow>
     erro + ((var \<Rightarrow> int) option \<times> cp_status)" where
  "otimizar_dict solve itens pallets_config =
     (case otimizar_model_dict itens pallets_config of
        Inl e \<Rightarrow> Inl e
      | Inr model \<Rightarrow>
         (case solve model of
            (status, solver) \<Rightarrow>
              if status = OPTIMAL \<or> status = FEASIBLE
              then Inr (Some solver, status)
              else Inr (None, status)))"

text \<open>
  The integer configuration of a dictionary, and the dictionaries on which every number
  handed to the library is a 64-bit integer.
\<close>

definition config_int :: "config_dict \<Rightarrow> pallets_config" where
  "config_int d =
     \<lparr> quantidade = d_quantidade d,
       capacidade_massa = inteiro (d_capacidade_massa d),
       capacidade_volume = inteiro (d_capacidade_volume d),
       tipo = d_tipo d \<rparr>"

fun limite_int64 :: "numero \<Rightarrow> bool" where
  "limite_int64 (PyInt z) = int64 z"
| "limite_int64 (PyFloat r) = False"

definition numeros_int64 :: "item list \<Rightarrow> config_dict \<Rightarrow> bool" where
  "numeros_int64 itens d =
     (list_all (\<lambda>it. int64 (item_mass it) \<and> int64 (item_vol it) \<and>
                      int64 (get_prioridade it)) itens \<and>
      limite_int64 (d_capacidade_massa d) \<and> limite_int64 (d_capacidade_volume d))"

section \<open>\<^verbatim>\<open>PalletOptimizer.permutacoes\<close> and \<^verbatim>\<open>criar_visualizacao_3d\<close>\<close>

text \<open>Lines 77 to 83.\<close>

definition permutacoes :: "'a \<Rightarrow> 'a \<Rightarrow> 'a \<Rightarrow> ('a \<times> 'a \<times> 'a) list" where
  "permutacoes l w h =
     [(l, w, h), (l, h, w),
      (w, l, h), (w, h, l),
      (h, l, w), (h, w, l)]"

text \<open>
  Line 183: \<^verbatim>\<open>next(k for k in range(6) if solver.Value(r[i, k]) == 1)\<close>, the first
  orientation whose variable is 1; \<open>None\<close> is the exhausted generator, on which
  \<^verbatim>\<open>next\<close> raises \<open>StopIteration\<close>.
\<close>

definition orientacao :: "(var \<Rightarrow> int) \<Rightarrow> nat \<Rightarrow> nat option" where
  "orientacao val i = find (\<lambda>k. val (R i k) = 1) [0..<6]"

text \<open>
  A trace added to the figure: the vertex coordinates of a \<^verbatim>\<open>Mesh3d\<close> and what it
  draws (the trace's name: a pallet base or the box of an item). Colour, opacity and the
  triangle indices are constants of the drawing and are left out.
\<close>

datatype origem = Palete nat | Caixa nat

record mesh3d =
  mesh_x :: "real list"
  mesh_y :: "real list"
  mesh_z :: "real list"
  mesh_name :: origem

text \<open>Lines 170 to 178: the base of pallet \<open>p\<close>.\<close>

definition base_palete :: "real \<Rightarrow> nat \<Rightarrow> mesh3d" where
  "base_palete offset_x p =
     \<lparr> mesh_x = [offset_x, offset_x + 1.2, offset_x + 1.2, offset_x],
       mesh_y = [0, 0, 0.8, 0.8],
       mesh_z = [0, 0, 0, 0],
       mesh_name = Palete p \<rparr>"

text \<open>Lines 187 to 199: the box of item \<open>i\<close> with its base at height \<open>z_top\<close>.\<close>

definition caixa_3d :: "real \<Rightarrow> real \<Rightarrow> real \<times> real \<times> real \<Rightarrow> nat \<Rightarrow> mesh3d" where
  "caixa_3d offset_x z_top lwh i =
     (case lwh of (l, w, h) \<Rightarrow>
       \<lparr> mesh_x = [offset_x, offset_x + l, offset_x + l, offset_x,
                   offset_x, offset_x + l, offset_x + l, offset_x],
         mesh_y = [0, 0, w, w, 0, 0, w, w],
         mesh_z = [z_top, z_top, z_top, z_top,
                   z_top + h, z_top + h, z_top + h, z_top + h],
         mesh_name = Caixa i \<rparr>)"

text \<open>
  Lines 180 to 201, the loop over the items for one pallet; the state is the figure and
  the cursor \<open>z_top\<close>.
\<close>

fun empilhar_itens ::
  "item list \<Rightarrow> (var \<Rightarrow> int) \<Rightarrow> nat \<Rightarrow> real \<Rightarrow> nat list \<Rightarrow> mesh3d list \<times> real \<Rightarrow>
     erro + (mesh3d list \<times> real)" where
  "empilhar_itens itens val p offset_x [] (fig, z_top) = Inr (fig, z_top)"
| "empilhar_itens itens val p offset_x (i # is) (fig, z_top) =
     (if val (X i p) = 1
      then (case orientacao val i of
              None \<Rightarrow> Inl StopIteration
            | Some orient \<Rightarrow>
                (case permutacoes (item_l (itens ! i)) (item_w (itens ! i))
                        (item_h (itens ! i)) ! orient of
                   (l, w, h) \<Rightarrow>
                     empilhar_itens itens val p offset_x is
                       (fig @ [caixa_3d offset_x z_top (l, w, h) i], z_top + h)))
      else empilhar_itens itens val p offset_x is (fig, z_top))"

text \<open>Lines 165 to 201, the loop over the pallets.\<close>

fun percorrer_paletes ::
  "item list \<Rightarrow> (var \<Rightarrow> int) \<Rightarrow> nat list \<Rightarrow> mesh3d list \<Rightarrow> erro + mesh3d list" where
  "percorrer_paletes itens val [] fig = Inr fig"
| "percorrer_paletes itens val (p # ps) fig =
     (let z_top = 0;
          offset_x = real p * 2.5
      in case empilhar_itens itens val p offset_x [0..<length itens]
                (fig @ [base_palete offset_x p], z_top) of
           Inl e \<Rightarrow> Inl e
         | Inr (fig', z_top') \<Rightarrow> percorrer_paletes itens val ps fig')"

text \<open>
  Lines 158 to 214; the result is the list of traces of the figure. The arguments
  \<^verbatim>\<open>x\<close> and \<^verbatim>\<open>r\<close> of the program are the dictionaries made by
  \<^verbatim>\<open>otimizar\<close> for the same items and configuration, that is the constructors
  \<open>X\<close> and \<open>R\<close>, and are no parameters here; the same holds for \<^verbatim>\<open>x\<close> in
  \<^verbatim>\<open>calcular_metricas\<close>.
\<close>

definition criar_visualizacao_3d ::
  "item list \<Rightarrow> (var \<Rightarrow> int) \<Rightarrow> pallets_config \<Rightarrow> erro + mesh3d list" where
  "criar_visualizacao_3d itens solver pallets_config =
     percorrer_paletes itens solver [0..<nat (quantidade pallets_config)] []"

section \<open>\<^verbatim>\<open>PalletOptimizer.calcular_metricas\<close>\<close>

text \<open>
  The dictionary of metrics (lines 251 to 262), one field per key; the prefix \<open>m_\<close>
  keeps the keys apart from the local variables of the same name.
\<close>

record metricas =
  m_pallets_utilizados :: int
  m_itens_carregados :: int
  m_itens_total :: int
  m_taxa_utilizacao_itens :: real
  m_volume_utilizado :: real
  m_volume_disponivel :: real
  m_taxa_utilizacao_volume :: real
  m_peso_utilizado :: real
  m_peso_disponivel :: real
  m_taxa_utilizacao_peso :: real

text \<open>
  Lines 231 to 239, the loop over the items for one pallet; the state is
  \<open>(volume_palete, peso_palete, itens_palete)\<close>.
\<close>

definition somar_palete :: "item list \<Rightarrow> (var \<Rightarrow> int) \<Rightarrow> nat \<Rightarrow> int \<times> int \<times> int" where
  "somar_palete itens val p =
     fold (\<lambda>i (volume_palete, peso_palete, itens_palete).
             if val (X i p) = 1
             then (volume_palete + item_vol (itens ! i),
                   peso_palete + item_mass (itens ! i),
                   itens_palete + 1)
             else (volume_palete, peso_palete, itens_palete))
          [0..<length itens] (0, 0, 0)"

text \<open>
  Lines 225 to 245, the loop over the pallets; the state is
  \<open>(pallets_utilizados, volume_total_utilizado, peso_total_utilizado, itens_carregados)\<close>.
\<close>

definition somar_paletes ::
  "item list \<Rightarrow> (var \<Rightarrow> int) \<Rightarrow> nat \<Rightarrow> int \<times> int \<times> int \<times> int" where
  "somar_paletes itens val num_pallets =
     fold (\<lambda>p (pallets_utilizados, volume_total_utilizado, peso_total_utilizado,
                itens_carregados).
             case somar_palete itens val p of
               (volume_palete, peso_palete, itens_palete) \<Rightarrow>
                 if itens_palete > 0
                 then (pallets_utilizados + 1,
                       volume_total_utilizado + volume_palete,
                       peso_total_utilizado + peso_palete,
                       itens_carregados + itens_palete)
                 else (pallets_utilizados, volume_total_utilizado, peso_total_utilizado,
                       itens_carregados))
          [0..<num_pallets] (0, 0, 0, 0)"

text \<open>
  Lines 216 to 264. \<^verbatim>\<open>if not solver: return {}\<close> comes first; the empty dictionary
  is \<open>None\<close>. The entries of the dictionary are evaluated in order, and the only
  division whose divisor can be 0 is the one by \<^verbatim>\<open>len(itens)\<close> (line 255). The
  divisions are Python's true division, modelled in the reals.
\<close>

definition calcular_metricas ::
  "item list \<Rightarrow> (var \<Rightarrow> int) option \<Rightarrow> pallets_config \<Rightarrow> erro + metricas option" where
  "calcular_metricas itens solver pallets_config =
     (case solver of
        None \<Rightarrow> Inr None
      | Some val \<Rightarrow>
         (case somar_paletes itens val (nat (quantidade pallets_config)) of
            (pallets_utilizados, volume_total_utilizado, peso_total_utilizado,
             itens_carregados) \<Rightarrow>
              (let volume_total_disponivel =
                     capacidade_volume pallets_config * pallets_utilizados;
                   peso_total_disponivel =
                     capacidade_massa pallets_config * pallets_utilizados
               in if length itens = 0 then Inl ZeroDivisionError
                  else Inr (Some
                    \<lparr> m_pallets_utilizados = pallets_utilizados,
                      m_itens_carregados = itens_carregados,
                      m_itens_total = int (length itens),
                      m_taxa_utilizacao_itens =
                        (real_of_int itens_carregados / real (length itens)) * 100,
                      m_volume_utilizado =
                        real_of_int volume_total_utilizado / real_of_int SCALE_VOL,
                      m_volume_disponivel =
                        real_of_int volume_total_disponivel / real_of_int SCALE_VOL,
                      m_taxa_utilizacao_volume =
                        (if volume_total_disponivel > 0
                         then (real_of_int volume_total_utilizado /
                               real_of_int volume_total_disponivel) * 100
                         else 0),
                      m_peso_utilizado =
                        real_of_int peso_total_utilizado / real_of_int SCALE_MASS,
                      m_peso_disponivel =
                        real_of_int peso_total_disponivel / real_of_int SCALE_MASS,
                      m_taxa_utilizacao_peso =
                        (if peso_total_disponivel > 0
                         then (real_of_int peso_total_utilizado /
                               real_of_int peso_total_disponivel) * 100
                         else 0) \<rparr>))))"

text \<open>
  Lines 426 to 434 of \<^verbatim>\<open>main\<close>: the optimisation and the metrics run only when the
  button was pressed and the item list is not empty, and the metrics only when
  \<^verbatim>\<open>otimizar\<close> returned a solver. \<open>None\<close> stands for "nothing was computed".
\<close>

definition main_metricas ::
  "(cp_model \<Rightarrow> cp_status \<times> (var \<Rightarrow> int)) \<Rightarrow> bool \<Rightarrow> item list \<Rightarrow> pallets_config \<Rightarrow>
     (erro + metricas option) option" where
  "main_metricas solve otimizar_btn itens pallet_config =
     (if otimizar_btn \<and> itens \<noteq> []
      then (case otimizar solve itens pallet_config of
              Inl e \<Rightarrow> Some (Inl e)
            | Inr (None, status) \<Rightarrow> None
            | Inr (Some solver, status) \<Rightarrow>
                Some (calcular_metricas itens (Some solver) pallet_config))
      else None)"

section \<open>Notions used to state properties of a model\<close>

text \<open>The variables that a constraint mentions.\<close>

fun vars_de :: "restricao \<Rightarrow> var list" where
  "vars_de (Lin ts rl b) = map snd ts"

text \<open>The values \<open>val\<close> with item \<open>i\<close> taken off every pallet.\<close>

fun descarregar :: "nat \<Rightarrow> (var \<Rightarrow> int) \<Rightarrow> var \<Rightarrow> int" where
  "descarregar i val (X j p) = (if j = i then 0 else val (X j p))"
| "descarregar i val (R j k) = val (R j k)"
| "descarregar i val (S j j') = val (S j j')"

text \<open>
  What the specification calls the used pallets (those holding at least one item) and
  the loaded quantity: the sum, over the pallets and the items read as assigned to
  them, of a quantity \<open>q\<close> of the item (its volume, its mass, or 1 to count it).
\<close>

definition paletes_usadas :: "(var \<Rightarrow> int) \<Rightarrow> nat \<Rightarrow> nat \<Rightarrow> nat list" where
  "paletes_usadas val n num_pallets =
     filter (\<lambda>p. itens_na_palete val n p \<noteq> []) [0..<num_pallets]"

definition carga_total :: "(item \<Rightarrow> int) \<Rightarrow> item list \<Rightarrow> (var \<Rightarrow> int) \<Rightarrow> nat \<Rightarrow> int" where
  "carga_total q itens val num_pallets =
     sum_list (map (\<lambda>p. sum_list (map (\<lambda>i. q (itens ! i))
                                      (itens_na_palete val (length itens) p)))
                   [0..<num_pallets])"

text \<open>
  The layout as the specification describes it. The dimensions \<open>(l', w', h')\<close> of an
  item are the permutation selected by its orientation index; the cursor of an item on
  a pallet is the sum of the heights \<open>h'\<close> of the items of lower index on that pallet;
  the tower of a pallet is its base followed by the boxes of its items in index order,
  each with its corner at \<open>x = 0\<close>, \<open>y = 0\<close> of the pallet (shifted along \<open>x\<close> by the
  offset of the pallet) and at the height of its cursor.
\<close>

definition dims_orientadas :: "item list \<Rightarrow> (var \<Rightarrow> int) \<Rightarrow> nat \<Rightarrow> real \<times> real \<times> real" where
  "dims_orientadas itens val i =
     permutacoes (item_l (itens ! i)) (item_w (itens ! i)) (item_h (itens ! i)) !
       the (orientacao val i)"

definition altura_orientada :: "item list \<Rightarrow> (var \<Rightarrow> int) \<Rightarrow> nat \<Rightarrow> real" where
  "altura_orientada itens val i = snd (snd (dims_orientadas itens val i))"

definition cursor_z :: "item list \<Rightarrow> (var \<Rightarrow> int) \<Rightarrow> nat \<Rightarrow> nat \<Rightarrow> real" where
  "cursor_z itens val p i =
     sum_list (map (altura_orientada itens val)
                   (filter (\<lambda>j. j < i) (itens_na_palete val (length itens) p)))"

definition torre_palete :: "item list \<Rightarrow> (var \<Rightarrow> int) \<Rightarrow> nat \<Rightarrow> mesh3d list" where
  "torre_palete itens val p =
     base_palete (real p * 2.5) p #
     map (\<lambda>i. caixa_3d (real p * 2.5) (cursor_z itens val p i) (dims_orientadas itens val i) i)
         (itens_na_palete val (length itens) p)"

section \<open>A worked example\<close>

text \<open>
  Three items and two pallets, used to run the definitions: a box that may not be
  rotated, a heavier rotatable box, and a fragile box. The values \<open>val_ex\<close> put the first
  two on pallet 0, the first resting on the second, and leave the third unloaded.
\<close>

definition itens_ex :: "item list" where
  "itens_ex =
     [\<lparr> item_id = 0, item_nome = ''Item_1'', item_categoria = ''Padrao'',
        item_l = 0.5, item_w = 0.4, item_h = 0.3, item_vol = 60000, item_mass = 20000,
        item_f = 0, item_o = 0, item_prioridade = Some 3, item_destino = ''Salvador'' \<rparr>,
      \<lparr> item_id = 1, item_nome = ''Item_2'', item_categoria = ''Padrao'',
        item_l = 0.6, item_w = 0.5, item_h = 0.4, item_vol = 120000, item_mass = 30000,
        item_f = 0, item_o = 1, item_prioridade = Some 2, item_destino = ''Salvador'' \<rparr>,
      \<lparr> item_id = 2, item_nome = ''Item_3'', item_categoria = ''Padrao'',
        item_l = 0.4, item_w = 0.3, item_h = 0.3, item_vol = 36000, item_mass = 40000,
        item_f = 1, item_o = 1, item_prioridade = None, item_destino = ''Salvador'' \<rparr>]"

definition cfg_ex :: pallets_config where
  "cfg_ex = \<lparr> quantidade = 2, capacidade_massa = 1000000,
             capacidade_volume = 2160000, tipo = ''PBR'' \<rparr>"

fun val_ex :: "var \<Rightarrow> int" where
  "val_ex (X i p) = (if (i = 0 \<or> i = 1) \<and> p = 0 then 1 else 0)"
| "val_ex (R i k) =
     (if (i = 0 \<and> k = 0) \<or> (i = 1 \<and> k = 3) \<or> (i = 2 \<and> k = 0) then 1 else 0)"
| "val_ex (S i j) = (if i = 0 \<and> j = 1 then 1 else 0)"

text \<open>
  A solver to run \<^verbatim>\<open>otimizar\<close> with: it proposes one fixed candidate and reports
  \<open>FEASIBLE\<close> when the candidate satisfies the model, \<open>UNKNOWN\<close> otherwise.
\<close>

definition resolver_com :: "(var \<Rightarrow> int) \<Rightarrow> cp_model \<Rightarrow> cp_status \<times> (var \<Rightarrow> int)" where
  "resolver_com val m = (if satisfaz val m then (FEASIBLE, val) else (UNKNOWN, val))"


text \<open>
  Inputs outside the ranges the specification allows: the example with no pallet at
  all, with values that load nothing; and one pallet of capacity 0 with an item of
  length 0, volume 0 and mass 0, with values that load it.
\<close>

definition cfg_zero :: pallets_config where
  "cfg_zero = \<lparr> quantidade = 0, capacidade_massa = 1000000,
               capacidade_volume = 2160000, tipo = ''PBR'' \<rparr>"

fun val_sem_carga :: "var \<Rightarrow> int" where
  "val_sem_carga (X i p) = 0"
| "val_sem_carga (R i k) = (if k = 0 then 1 else 0)"
| "val_sem_carga (S i j) = 0"

definition itens_nulos :: "item list" where
  "itens_nulos =
     [\<lparr> item_id = 0, item_nome = ''Item_1'', item_categoria = ''Geral'',
        item_l = 0, item_w = 0.4, item_h = 0.3, item_vol = 0, item_mass = 0,
        item_f = 0, item_o = 0, item_prioridade = Some 1, item_destino = ''Salvador'' \<rparr>]"

definition cfg_nula :: pallets_config where
  "cfg_nula = \<lparr> quantidade = 1, capacidade_massa = 0,
               capacidade_volume = 0, tipo = ''Personalizada'' \<rparr>"

fun val_nulo :: "var \<Rightarrow> int" where
  "val_nulo (X i p) = (if i = 0 \<and> p = 0 then 1 else 0)"
| "val_nulo (R i k) = (if k = 0 then 1 else 0)"
| "val_nulo (S i j) = 0"

text \<open>
  An item of volume \<open>2\<^sup>6\<^sup>0\<close> (a cube of side \<open>10485.76\<close> m, in millionths of a cubic
  metre) and priority 16, with one pallet of the preset PBR as a dictionary and as an
  integer configuration.
\<close>

definition itens_enormes :: "item list" where
  "itens_enormes =
     [\<lparr> item_id = 0, item_nome = ''Item_1'', item_categoria = ''Geral'',
        item_l = 10485.76, item_w = 10485.76, item_h = 10485.76,
        item_vol = 1152921504606846976, item_mass = 1000,
        item_f = 0, item_o = 0, item_prioridade = Some 16, item_destino = ''Salvador'' \<rparr>]"

definition dict_um :: config_dict where
  "dict_um = \<lparr> d_quantidade = 1, d_capacidade_massa = PyInt 1000000,
              d_capacidade_volume = PyInt 2160000, d_tipo = ''PBR'' \<rparr>"

definition cfg_um :: pallets_config where
  "cfg_um = \<lparr> quantidade = 1, capacidade_massa = 1000000,
             capacidade_volume = 2160000, tipo = ''PBR'' \<rparr>"

text \<open>
  The inputs above as dictionaries, and the preset \<^verbatim>\<open>Personalizada\<close> with its
  default values and two pallets.
\<close>

definition dict_zero :: config_dict where
  "dict_zero = \<lparr> d_quantidade = 0, d_capacidade_massa = PyInt 1000000,
                d_capacidade_volume = PyInt 2160000, d_tipo = ''PBR'' \<rparr>"

definition dict_nula :: config_dict where
  "dict_nula = \<lparr> d_quantidade = 1, d_capacidade_massa = PyInt 0,
                d_capacidade_volume = PyInt 0, d_tipo = ''Personalizada'' \<rparr>"

definition dict_personalizada :: config_dict where
  "dict_personalizada = \<lparr> d_quantidade = 2, d_capacidade_massa = PyFloat 1000000,
                         d_capacidade_volume = PyFloat 2160000, d_tipo = ''Personalizada'' \<rparr>"

text \<open>
  Items of negative mass, as a file with a negative value in the column \<^verbatim>\<open>mass\<close>
  gives them (line 311): one item of mass \<open>-5\<close> with a pallet of mass capacity \<open>-1\<close>; and
  an item of mass \<open>2000000\<close> beside one of mass \<open>-1500000\<close> with one pallet of the
  preset PBR. The values \<open>val_tudo\<close> put every item on pallet 0.
\<close>

definition itens_negativos :: "item list" where
  "itens_negativos =
     [\<lparr> item_id = 0, item_nome = ''Item_1'', item_categoria = ''Geral'',
        item_l = 0.1, item_w = 0.1, item_h = 0.1, item_vol = 1000, item_mass = - 5,
        item_f = 0, item_o = 0, item_prioridade = Some 1, item_destino = ''Salvador'' \<rparr>]"

definition cfg_negativa :: pallets_config where
  "cfg_negativa = \<lparr> quantidade = 1, capacidade_massa = - 1,
                   capacidade_volume = 2160000, tipo = ''PBR'' \<rparr>"

definition itens_csv :: "item list" where
  "itens_csv =
     [\<lparr> item_id = 0, item_nome = ''A'', item_categoria = ''Geral'',
        item_l = 0.5, item_w = 0.4, item_h = 0.3, item_vol = 60000, item_mass = 2000000,
        item_f = 0, item_o = 0, item_prioridade = Some 1, item_destino = ''Salvador'' \<rparr>,
      \<lparr> item_id = 1, item_nome = ''B'', item_categoria = ''Geral'',
        item_l = 0.5, item_w = 0.4, item_h = 0.3, item_vol = 60000, item_mass = - 1500000,
        item_f = 0, item_o = 0, item_prioridade = Some 1, item_destino = ''Salvador'' \<rparr>]"

fun val_tudo :: "var \<Rightarrow> int" where
  "val_tudo (X i p) = (if p = 0 then 1 else 0)"
| "val_tudo (R i k) = (if k = 0 then 1 else 0)"
| "val_tudo (S i j) = 0"

section \<open>Facts about the built model\<close>

lemma variaveis_otimizar_model:
  "variaveis (otimizar_model itens cfg) =
     criar_variaveis (length itens) (nat (quantidade cfg))"
  by (simp add: otimizar_model_def Let_def)

lemma restricoes_otimizar_model:
  "restricoes (otimizar_model itens cfg) =
     concat (map (restricoes_item itens (nat (quantidade cfg))) [0..<length itens]) @
     concat (map (\<lambda>i. concat (map (restricoes_par itens i) [0..<length itens]))
                 [0..<length itens]) @
     concat (map (restricoes_palete itens cfg) [0..<nat (quantidade cfg)])"
  by (simp add: otimizar_model_def Let_def)

lemma X_in_criar_variaveis:
  "i < n \<Longrightarrow> p < P \<Longrightarrow> X i p \<in> set (criar_variaveis n P)"
  by (force simp: criar_variaveis_def)

lemma satisfaz_var:
  "satisfaz val m \<Longrightarrow> v \<in> set (variaveis m) \<Longrightarrow> val v = 0 \<or> val v = 1"
  by (auto simp: satisfaz_def list_all_iff)

lemma satisfaz_restricao:
  "satisfaz val m \<Longrightarrow> c \<in> set (restricoes m) \<Longrightarrow> vale val c"
  by (auto simp: satisfaz_def list_all_iff)

lemma satisfaz_X:
  assumes "satisfaz val (otimizar_model itens cfg)"
    and "i < length itens" and "p < nat (quantidade cfg)"
  shows "val (X i p) = 0 \<or> val (X i p) = 1"
  using satisfaz_var [OF assms(1)] X_in_criar_variaveis [OF assms(2,3)]
  by (simp add: variaveis_otimizar_model)

lemma restricoes_palete_in_model:
  assumes "p < nat (quantidade cfg)" and "c \<in> set (restricoes_palete itens cfg p)"
  shows "c \<in> set (restricoes (otimizar_model itens cfg))"
  using assms by (auto simp: restricoes_otimizar_model)

text \<open>What \<^verbatim>\<open>otimizar\<close> returns, and that a returned solver satisfies the model.\<close>

lemma otimizar_eq:
  "otimizar solve itens cfg =
     Inr (if fst (solve (otimizar_model itens cfg)) = OPTIMAL \<or>
             fst (solve (otimizar_model itens cfg)) = FEASIBLE
          then Some (snd (solve (otimizar_model itens cfg))) else None,
          fst (solve (otimizar_model itens cfg)))"
  by (simp add: otimizar_def Let_def split: prod.splits)

lemma otimizar_satisfaz:
  assumes "solver_correto solve" and "otimizar solve itens cfg = Inr (Some val, st)"
  shows "satisfaz val (otimizar_model itens cfg)"
proof -
  let ?m = "otimizar_model itens cfg"
  from assms(2) have "fst (solve ?m) = OPTIMAL \<or> fst (solve ?m) = FEASIBLE"
    and "val = snd (solve ?m)"
    by (auto simp: otimizar_eq split: if_splits)
  with assms(1) show ?thesis
    unfolding solver_correto_def by blast
qed

lemma resolver_com_correto: "solver_correto (resolver_com val)"
  by (simp add: solver_correto_def resolver_com_def)

text \<open>The worked example satisfies its model, and \<^verbatim>\<open>otimizar\<close> returns it.\<close>

lemma satisfaz_ex: "satisfaz val_ex (otimizar_model itens_ex cfg_ex)"
  by code_simp

lemma otimizar_ex:
  "otimizar (resolver_com val_ex) itens_ex cfg_ex = Inr (Some val_ex, FEASIBLE)"
  by (simp add: otimizar_eq resolver_com_def satisfaz_ex)

text \<open>A weighted sum of 0/1 values is the sum of the weights whose value is 1.\<close>

lemma soma_binaria:
  assumes "\<forall>i \<in> set js. val (v i) = 0 \<or> val (v i) = (1::int)"
  shows "valor_lin val (map (\<lambda>i. (c i, v i)) js) =
         sum_list (map c (filter (\<lambda>i. val (v i) = 1) js))"
  using assms by (induction js) (auto simp: valor_lin_def)

subsection \<open>Where the constraints of the model come from\<close>

lemma restricoes_item_in_model:
  assumes "i < length itens" and "c \<in> set (restricoes_item itens (nat (quantidade cfg)) i)"
  shows "c \<in> set (restricoes (otimizar_model itens cfg))"
  using assms by (auto simp: restricoes_otimizar_model)

lemma restricoes_par_in_model:
  assumes "i < length itens" and "j < length itens" and "c \<in> set (restricoes_par itens i j)"
  shows "c \<in> set (restricoes (otimizar_model itens cfg))"
  using assms by (auto simp: restricoes_otimizar_model)

lemma restricoes_model_cases:
  assumes "c \<in> set (restricoes (otimizar_model itens cfg))"
  shows "(\<exists>i<length itens. c \<in> set (restricoes_item itens (nat (quantidade cfg)) i))
       \<or> (\<exists>i<length itens. \<exists>j<length itens. c \<in> set (restricoes_par itens i j))
       \<or> (\<exists>p<nat (quantidade cfg). c \<in> set (restricoes_palete itens cfg p))"
  using assms by (auto simp: restricoes_otimizar_model)

subsection \<open>Taking an item off its pallet\<close>

lemma valor_lin_mono:
  assumes "\<forall>i \<in> set js. c i * val' (v i) \<le> c i * val (v i)"
  shows "valor_lin val' (map (\<lambda>i. (c i, v i)) js) \<le> valor_lin val (map (\<lambda>i. (c i, v i)) js)"
  using assms by (induction js) (auto simp: valor_lin_def intro: add_mono)

lemma valor_lin_cong:
  assumes "\<forall>v \<in> set (map snd ts). val' v = val v"
  shows "valor_lin val' ts = valor_lin val ts"
  using assms by (induction ts) (auto simp: valor_lin_def)

lemma descarregar_bin:
  "val v = 0 \<or> val v = 1 \<Longrightarrow> descarregar i val v = 0 \<or> descarregar i val v = 1"
  by (cases v) auto

lemma vale_descarregar_item:
  assumes "vale val c" and "c \<in> set (restricoes_item itens P j)"
  shows "vale (descarregar i val) c"
proof (cases "c = Lin (map (\<lambda>p. (1, X j p)) [0..<P]) LE 1")
  case True
  show ?thesis
  proof (cases "j = i")
    case True
    have "valor_lin (descarregar i val) (map (\<lambda>p. (1, X i p)) [0..<P]) = 0"
      by (induction P) (auto simp: valor_lin_def)
    with \<open>c = _\<close> True show ?thesis by simp
  next
    case False
    then have "valor_lin (descarregar i val) (map (\<lambda>p. (1, X j p)) [0..<P]) =
               valor_lin val (map (\<lambda>p. (1, X j p)) [0..<P])"
      by (intro valor_lin_cong) auto
    with \<open>c = _\<close> assms(1) show ?thesis by simp
  qed
next
  case False
  with assms(2) have "\<forall>v \<in> set (vars_de c). \<exists>k. v = R j k"
    by (auto simp: restricoes_item_def split: if_splits)
  then have eq: "\<forall>v \<in> set (vars_de c). descarregar i val v = val v"
    by auto
  obtain ts rl b where c: "c = Lin ts rl b" by (cases c)
  with eq have "valor_lin (descarregar i val) ts = valor_lin val ts"
    by (intro valor_lin_cong) simp
  with assms(1) c show ?thesis by (cases rl) auto
qed

lemma vale_descarregar_par:
  assumes "vale val c" and "c \<in> set (restricoes_par itens j j')"
  shows "vale (descarregar i val) c"
  using assms by (auto simp: restricoes_par_def valor_lin_def split: if_splits)

lemma vale_descarregar_palete:
  assumes "vale val c" and "c \<in> set (restricoes_palete itens cfg p)"
    and bin: "\<forall>j<length itens. val (X j p) = 0 \<or> val (X j p) = 1"
    and pos: "i < length itens \<longrightarrow> 0 \<le> item_mass (itens ! i) \<and> 0 \<le> item_vol (itens ! i)"
  shows "vale (descarregar i val) c"
proof -
  have le: "valor_lin (descarregar i val) (map (\<lambda>j. (w j, X j p)) [0..<length itens])
          \<le> valor_lin val (map (\<lambda>j. (w j, X j p)) [0..<length itens])"
    if "i < length itens \<longrightarrow> 0 \<le> w i" for w :: "nat \<Rightarrow> int"
  proof (rule valor_lin_mono, rule ballI)
    fix j assume "j \<in> set [0..<length itens]"
    then have j: "j < length itens" by simp
    show "w j * descarregar i val (X j p) \<le> w j * val (X j p)"
      using bin j that by (cases "j = i") auto
  qed
  from assms(2) consider
      "c = Lin (map (\<lambda>j. (item_mass (itens ! j), X j p)) [0..<length itens]) LE (capacidade_massa cfg)"
    | "c = Lin (map (\<lambda>j. (item_vol (itens ! j), X j p)) [0..<length itens]) LE (capacidade_volume cfg)"
    by (auto simp: restricoes_palete_def)
  then show ?thesis
  proof cases
    case 1
    with assms(1) le [of "\<lambda>j. item_mass (itens ! j)"] pos show ?thesis by simp
  next
    case 2
    with assms(1) le [of "\<lambda>j. item_vol (itens ! j)"] pos show ?thesis by simp
  qed
qed

lemma satisfaz_descarregar:
  assumes sat: "satisfaz val (otimizar_model itens cfg)"
    and pos: "i < length itens \<longrightarrow> 0 \<le> item_mass (itens ! i) \<and> 0 \<le> item_vol (itens ! i)"
  shows "satisfaz (descarregar i val) (otimizar_model itens cfg)"
proof -
  let ?M = "otimizar_model itens cfg"
  have vars: "list_all (\<lambda>v. descarregar i val v = 0 \<or> descarregar i val v = 1) (variaveis ?M)"
    using satisfaz_var [OF sat] descarregar_bin by (auto simp: list_all_iff)
  have "vale (descarregar i val) c" if c: "c \<in> set (restricoes ?M)" for c
  proof -
    have v: "vale val c" by (rule satisfaz_restricao [OF sat c])
    from restricoes_model_cases [OF c] show ?thesis
    proof (elim disjE exE conjE)
      fix j assume "j < length itens" "c \<in> set (restricoes_item itens (nat (quantidade cfg)) j)"
      then show ?thesis using v vale_descarregar_item by blast
    next
      fix j j' assume "c \<in> set (restricoes_par itens j j')"
      then show ?thesis using v vale_descarregar_par by blast
    next
      fix p assume p: "p < nat (quantidade cfg)" and "c \<in> set (restricoes_palete itens cfg p)"
      moreover have "\<forall>j<length itens. val (X j p) = 0 \<or> val (X j p) = 1"
        using satisfaz_X [OF sat _ p] by blast
      ultimately show ?thesis using v pos vale_descarregar_palete by blast
    qed
  qed
  then have "list_all (vale (descarregar i val)) (restricoes ?M)"
    by (simp add: list_all_iff)
  with vars show ?thesis by (simp add: satisfaz_def)
qed

subsection \<open>Counting with 0/1 values\<close>

lemma soma_uns: "sum_list (map (\<lambda>i. 1::int) xs) = int (length xs)"
  by (induction xs) auto

lemma contagem_binaria:
  assumes "\<forall>i \<in> set js. val (v i) = 0 \<or> val (v i) = (1::int)"
  shows "valor_lin val (map (\<lambda>i. (1, v i)) js) = int (length (filter (\<lambda>i. val (v i) = 1) js))"
  using soma_binaria [OF assms, of "\<lambda>i. 1"] by (simp add: soma_uns)

lemma solucao_uma_palete:
  assumes sat: "satisfaz val (otimizar_model itens cfg)" and i: "i < length itens"
  shows "length (filter (\<lambda>p. val (X i p) = 1) [0..<nat (quantidade cfg)]) \<le> 1"
proof -
  let ?P = "nat (quantidade cfg)"
  have bin: "\<forall>p \<in> set [0..<?P]. val (X i p) = 0 \<or> val (X i p) = 1"
    using satisfaz_X [OF sat i] by simp
  have "Lin (map (\<lambda>p. (1, X i p)) [0..<?P]) LE 1 \<in> set (restricoes (otimizar_model itens cfg))"
    by (rule restricoes_item_in_model [OF i]) (simp add: restricoes_item_def)
  from satisfaz_restricao [OF sat this] show ?thesis
    using contagem_binaria [OF bin] by simp
qed

subsection \<open>The value of the objective\<close>

lemma valor_lin_append:
  "valor_lin val (ts @ us) = valor_lin val ts + valor_lin val us"
  by (simp add: valor_lin_def)

lemma valor_lin_concat:
  "valor_lin val (concat tss) = sum_list (map (valor_lin val) tss)"
  by (induction tss) (simp_all add: valor_lin_def)

lemma wrap64_id: "int64 z \<Longrightarrow> wrap64 z = z"
  by (simp add: int64_def wrap64_def)

lemma valor_termos_objetivo:
  "valor_lin val (termos_objetivo itens P) =
     (\<Sum>i<length itens. \<Sum>k<P.
         val (X i k) * wrap64 (item_vol (itens ! i) * get_prioridade (itens ! i)))"
proof -
  have inner: "valor_lin val (map (\<lambda>p. (c, X i p)) [0..<P]) = (\<Sum>k<P. val (X i k) * c)"
    for c :: int and i
    by (induction P) (simp_all add: valor_lin_def mult.commute)
  have "valor_lin val (termos_objetivo itens P) =
        sum_list (map (\<lambda>i. \<Sum>k<P. val (X i k) *
                          wrap64 (item_vol (itens ! i) * get_prioridade (itens ! i)))
                      [0..<length itens])"
    by (simp add: termos_objetivo_def valor_lin_concat comp_def inner)
  also have "\<dots> = (\<Sum>i<length itens. \<Sum>k<P.
         val (X i k) * wrap64 (item_vol (itens ! i) * get_prioridade (itens ! i)))"
    by (simp add: interv_sum_list_conv_sum_set_nat atLeast0LessThan)
  finally show ?thesis .
qed

lemma valor_termos_objetivo_int64:
  assumes "list_all (\<lambda>it. int64 (item_vol it *
                        (case item_prioridade it of None \<Rightarrow> 1 | Some q \<Rightarrow> q))) itens"
  shows "valor_lin val (termos_objetivo itens P) =
     (\<Sum>i<length itens. \<Sum>k<P.
         val (X i k) * item_vol (itens ! i) *
         (case item_prioridade (itens ! i) of None \<Rightarrow> 1 | Some q \<Rightarrow> q))"
proof -
  have "wrap64 (item_vol (itens ! i) * get_prioridade (itens ! i)) =
        item_vol (itens ! i) * (case item_prioridade (itens ! i) of None \<Rightarrow> 1 | Some q \<Rightarrow> q)"
    if "i < length itens" for i
  proof -
    from assms that have "int64 (item_vol (itens ! i) *
        (case item_prioridade (itens ! i) of None \<Rightarrow> 1 | Some q \<Rightarrow> q))"
      by (simp add: list_all_length)
    then show ?thesis
      by (simp add: wrap64_id get_prioridade_def)
  qed
  then show ?thesis
    unfolding valor_termos_objetivo by (simp add: mult.assoc)
qed

lemma termos_objetivo_massa_destino:
  "termos_objetivo (map (\<lambda>it. it\<lparr>item_mass := m it, item_destino := d it\<rparr>) itens) P =
   termos_objetivo itens P"
  unfolding termos_objetivo_def get_prioridade_def
  by (rule arg_cong [where f = concat]) (simp cong: map_cong)

subsection \<open>Stacking variables\<close>

lemma S_in_criar_variaveis:
  "i < n \<Longrightarrow> j < n \<Longrightarrow> i \<noteq> j \<Longrightarrow> S i j \<in> set (criar_variaveis n P)"
  by (force simp: criar_variaveis_def)

lemma vars_restricoes_item:
  "c \<in> set (restricoes_item itens P i) \<Longrightarrow> v \<in> set (vars_de c) \<Longrightarrow>
     (\<exists>p. v = X i p) \<or> (\<exists>k. v = R i k)"
  by (auto simp: restricoes_item_def split: if_splits)

lemma vars_restricoes_palete:
  "c \<in> set (restricoes_palete itens cfg p) \<Longrightarrow> v \<in> set (vars_de c) \<Longrightarrow> \<exists>i. v = X i p"
  by (auto simp: restricoes_palete_def)

lemma restricoes_par_S:
  assumes "c \<in> set (restricoes_par itens i j)"
  shows "c = Lin [(1, S i j)] EQ 0 \<and> i \<noteq> j \<and>
         (item_f (itens ! j) \<noteq> 0 \<or> item_mass (itens ! i) > item_mass (itens ! j))"
  using assms by (auto simp: restricoes_par_def split: if_splits)

lemma restricao_S_no_modelo:
  assumes "i < length itens" "j < length itens" "i \<noteq> j"
    "item_f (itens ! j) \<noteq> 0 \<or> item_mass (itens ! i) > item_mass (itens ! j)"
  shows "Lin [(1, S i j)] EQ 0 \<in> set (restricoes (otimizar_model itens cfg))"
proof (rule restricoes_par_in_model [OF assms(1,2)])
  show "Lin [(1, S i j)] EQ 0 \<in> set (restricoes_par itens i j)"
    using assms(3,4) by (auto simp: restricoes_par_def)
qed

lemma so_restricoes_S:
  assumes c: "c \<in> set (restricoes (otimizar_model itens cfg))"
    and v: "S i j \<in> set (vars_de c)"
  shows "c = Lin [(1, S i j)] EQ 0 \<and> i < length itens \<and> j < length itens \<and> i \<noteq> j \<and>
       (item_f (itens ! j) \<noteq> 0 \<or> item_mass (itens ! i) > item_mass (itens ! j))"
proof -
  from restricoes_model_cases [OF c] consider
      i' where "c \<in> set (restricoes_item itens (nat (quantidade cfg)) i')"
    | i' j' where "i' < length itens" "j' < length itens" "c \<in> set (restricoes_par itens i' j')"
    | p where "c \<in> set (restricoes_palete itens cfg p)"
    by blast
  then show ?thesis
  proof cases
    case 1
    from vars_restricoes_item [OF 1 v] show ?thesis by simp
  next
    case 2
    from restricoes_par_S [OF 2(3)] have c': "c = Lin [(1, S i' j')] EQ 0"
      and r: "i' \<noteq> j'"
         "item_f (itens ! j') \<noteq> 0 \<or> item_mass (itens ! i') > item_mass (itens ! j')"
      by simp_all
    from v c' have "i = i'" "j = j'" by simp_all
    with 2(1,2) c' r show ?thesis by simp
  next
    case 3
    from vars_restricoes_palete [OF 3 v] show ?thesis by simp
  qed
qed

lemma solucao_sem_S:
  assumes sat: "satisfaz val (otimizar_model itens cfg)"
    and ij: "i < length itens" "j < length itens" "i \<noteq> j" and s1: "val (S i j) = 1"
  shows "item_f (itens ! j) = 0 \<and> item_mass (itens ! i) \<le> item_mass (itens ! j)"
proof (rule ccontr)
  assume "\<not> ?thesis"
  then have "item_f (itens ! j) \<noteq> 0 \<or> item_mass (itens ! i) > item_mass (itens ! j)"
    by linarith
  from restricao_S_no_modelo [OF ij this] have "vale val (Lin [(1, S i j)] EQ 0)"
    using satisfaz_restricao [OF sat] by blast
  with s1 show False by (simp add: valor_lin_def)
qed

subsection \<open>Orientation variables\<close>

lemma R_in_criar_variaveis:
  "i < n \<Longrightarrow> k < 6 \<Longrightarrow> R i k \<in> set (criar_variaveis n P)"
  by (force simp: criar_variaveis_def)

lemma satisfaz_R:
  assumes "satisfaz val (otimizar_model itens cfg)" and "i < length itens" and "k < 6"
  shows "val (R i k) = 0 \<or> val (R i k) = 1"
  using satisfaz_var [OF assms(1)] R_in_criar_variaveis [OF assms(2,3)]
  by (simp add: variaveis_otimizar_model)

lemma filtro_unico:
  assumes "distinct xs" and "length (filter P xs) = 1"
  shows "\<exists>!x. x \<in> set xs \<and> P x"
proof -
  have "card ({x. P x} \<inter> set xs) = 1"
    using assms by (simp add: distinct_length_filter)
  then obtain a where "{x. P x} \<inter> set xs = {a}"
    using card_1_singletonE by blast
  then have "\<And>x. (x \<in> set xs \<and> P x) = (x = a)"
    by (auto simp: set_eq_iff)
  then show ?thesis by (intro ex1I [of _ a]) simp_all
qed

lemma orientacao_zero: "val (R i 0) = 1 \<Longrightarrow> orientacao val i = Some 0"
  by (simp add: orientacao_def upt_conv_Cons)

lemma orientacao_existe:
  assumes "k < 6" and "val (R i k) = 1"
  shows "\<exists>k'<6. orientacao val i = Some k' \<and> val (R i k') = 1"
proof -
  from assms have "\<exists>x\<in>set [0..<6]. val (R i x) = 1" by auto
  then have "find (\<lambda>k. val (R i k) = 1) [0..<6] \<noteq> None"
    by (auto simp: find_None_iff)
  then obtain k' where f: "find (\<lambda>k. val (R i k) = 1) [0..<6] = Some k'"
    by blast
  then have "k' \<in> set [0..<6] \<and> val (R i k') = 1"
    by (auto simp: find_Some_iff)
  with f show ?thesis by (auto simp: orientacao_def)
qed

lemma rotacao_livre_no_modelo:
  assumes "i < length itens" and "item_o (itens ! i) \<noteq> 0"
  shows "Lin (map (\<lambda>k. (1, R i k)) [0..<6]) EQ 1 \<in> set (restricoes (otimizar_model itens cfg))"
  by (rule restricoes_item_in_model [OF assms(1)]) (simp add: restricoes_item_def assms(2))

lemma rotacao_fixa_no_modelo:
  assumes "i < length itens" and "item_o (itens ! i) = 0"
  shows "Lin [(1, R i 0)] EQ 1 \<in> set (restricoes (otimizar_model itens cfg))"
    and "k \<in> {1..<6} \<Longrightarrow>
         Lin [(1, R i k)] EQ 0 \<in> set (restricoes (otimizar_model itens cfg))"
proof -
  show "Lin [(1, R i 0)] EQ 1 \<in> set (restricoes (otimizar_model itens cfg))"
    by (rule restricoes_item_in_model [OF assms(1)]) (simp add: restricoes_item_def assms(2))
  assume "k \<in> {1..<6}"
  then have "Lin [(1, R i k)] EQ 0 \<in> set (restricoes_item itens (nat (quantidade cfg)) i)"
    by (simp add: restricoes_item_def assms(2))
  then show "Lin [(1, R i k)] EQ 0 \<in> set (restricoes (otimizar_model itens cfg))"
    by (rule restricoes_item_in_model [OF assms(1)])
qed

lemma solucao_rotacao_livre:
  assumes sat: "satisfaz val (otimizar_model itens cfg)"
    and i: "i < length itens" and o: "item_o (itens ! i) \<noteq> 0"
  shows "\<exists>!k. k < 6 \<and> val (R i k) = 1"
proof -
  have bin: "\<forall>k \<in> set [0..<6]. val (R i k) = 0 \<or> val (R i k) = 1"
    using satisfaz_R [OF sat i] by simp
  have "vale val (Lin (map (\<lambda>k. (1, R i k)) [0..<6]) EQ 1)"
    by (rule satisfaz_restricao [OF sat rotacao_livre_no_modelo [OF i o]])
  then have "length (filter (\<lambda>k. val (R i k) = 1) [0..<6]) = 1"
    using contagem_binaria [OF bin] by simp
  from filtro_unico [OF _ this] have "\<exists>!k. k \<in> set [0..<6] \<and> val (R i k) = 1"
    by simp
  then show ?thesis by simp
qed

lemma solucao_rotacao_fixa:
  assumes sat: "satisfaz val (otimizar_model itens cfg)"
    and i: "i < length itens" and o: "item_o (itens ! i) = 0"
  shows "orientacao val i = Some 0" and "k \<in> {1..<6} \<Longrightarrow> val (R i k) = 0"
proof -
  have "vale val (Lin [(1, R i 0)] EQ 1)"
    by (rule satisfaz_restricao [OF sat rotacao_fixa_no_modelo(1) [OF i o]])
  then show "orientacao val i = Some 0"
    by (intro orientacao_zero) (simp add: valor_lin_def)
  assume "k \<in> {1..<6}"
  from satisfaz_restricao [OF sat rotacao_fixa_no_modelo(2) [OF i o this]]
  show "val (R i k) = 0" by (simp add: valor_lin_def)
qed

lemma satisfaz_orientacao:
  assumes sat: "satisfaz val (otimizar_model itens cfg)" and i: "i < length itens"
  shows "\<exists>k<6. orientacao val i = Some k"
proof (cases "item_o (itens ! i) = 0")
  case True
  from solucao_rotacao_fixa(1) [OF sat i True] show ?thesis by simp
next
  case False
  from solucao_rotacao_livre [OF sat i False] obtain k where "k < 6" "val (R i k) = 1"
    by blast
  from orientacao_existe [where k = k and val = val and i = i] this
  show ?thesis by blast
qed

subsection \<open>Inputs outside the specified ranges\<close>

lemma satisfaz_zero: "satisfaz val_sem_carga (otimizar_model itens_ex cfg_zero)"
  by code_simp

lemma satisfaz_nulo: "satisfaz val_nulo (otimizar_model itens_nulos cfg_nula)"
  by code_simp

subsection \<open>Metrics\<close>

text \<open>The loops of \<^verbatim>\<open>calcular_metricas\<close> in closed form.\<close>

lemma fold_somar_palete:
  "fold (\<lambda>i (a, b, c). if val (X i p) = 1
                        then (a + item_vol (itens ! i), b + item_mass (itens ! i), c + 1)
                        else (a, b, c)) js (a0, b0, c0) =
     (a0 + sum_list (map (\<lambda>i. item_vol (itens ! i)) (filter (\<lambda>i. val (X i p) = 1) js)),
      b0 + sum_list (map (\<lambda>i. item_mass (itens ! i)) (filter (\<lambda>i. val (X i p) = 1) js)),
      c0 + int (length (filter (\<lambda>i. val (X i p) = 1) js)))"
  by (induction js arbitrary: a0 b0 c0) simp_all

lemma somar_palete_eq:
  "somar_palete itens val p =
     (sum_list (map (\<lambda>i. item_vol (itens ! i)) (itens_na_palete val (length itens) p)),
      sum_list (map (\<lambda>i. item_mass (itens ! i)) (itens_na_palete val (length itens) p)),
      int (length (itens_na_palete val (length itens) p)))"
  by (simp add: somar_palete_def itens_na_palete_def fold_somar_palete)

lemma fold_somar_paletes:
  "fold (\<lambda>p (pu, vtu, ptu, ic).
           case somar_palete itens val p of
             (vp, pp, ip) \<Rightarrow>
               if ip > 0 then (pu + 1, vtu + vp, ptu + pp, ic + ip)
               else (pu, vtu, ptu, ic)) ps (pu0, vtu0, ptu0, ic0) =
     (pu0 + int (length (filter (\<lambda>p. itens_na_palete val (length itens) p \<noteq> []) ps)),
      vtu0 + sum_list (map (\<lambda>p. sum_list (map (\<lambda>i. item_vol (itens ! i))
                                 (itens_na_palete val (length itens) p))) ps),
      ptu0 + sum_list (map (\<lambda>p. sum_list (map (\<lambda>i. item_mass (itens ! i))
                                 (itens_na_palete val (length itens) p))) ps),
      ic0 + sum_list (map (\<lambda>p. int (length (itens_na_palete val (length itens) p))) ps))"
proof (induction ps arbitrary: pu0 vtu0 ptu0 ic0)
  case Nil
  show ?case by simp
next
  case (Cons p ps)
  let ?F = "\<lambda>p (pu, vtu, ptu, ic).
           case somar_palete itens val p of
             (vp, pp, ip) \<Rightarrow>
               if ip > 0 then (pu + 1, vtu + vp, ptu + pp, ic + ip)
               else (pu, vtu, ptu, ic)"
  let ?is = "itens_na_palete val (length itens) p"
  have unfold: "fold ?F (p # ps) (pu0, vtu0, ptu0, ic0) =
                fold ?F ps (?F p (pu0, vtu0, ptu0, ic0))"
    by simp
  show ?case
  proof (cases "?is = []")
    case True
    then have "?F p (pu0, vtu0, ptu0, ic0) = (pu0, vtu0, ptu0, ic0)"
      by (simp add: somar_palete_eq)
    then show ?thesis
      unfolding unfold by (simp only: Cons.IH) (simp add: True)
  next
    case False
    then have "?F p (pu0, vtu0, ptu0, ic0) =
      (pu0 + 1, vtu0 + sum_list (map (\<lambda>i. item_vol (itens ! i)) ?is),
       ptu0 + sum_list (map (\<lambda>i. item_mass (itens ! i)) ?is),
       ic0 + int (length ?is))"
      by (simp add: somar_palete_eq)
    then show ?thesis
      unfolding unfold by (simp only: Cons.IH) (simp add: False)
  qed
qed

lemma somar_paletes_eq:
  "somar_paletes itens val P =
     (int (length (paletes_usadas val (length itens) P)),
      carga_total item_vol itens val P,
      carga_total item_mass itens val P,
      carga_total (\<lambda>it. 1) itens val P)"
  by (simp add: somar_paletes_def fold_somar_paletes paletes_usadas_def carga_total_def
        soma_uns)

lemma calcular_metricas_eq:
  assumes "itens \<noteq> []"
  shows "calcular_metricas itens (Some val) cfg =
     Inr (Some
       \<lparr> m_pallets_utilizados =
           int (length (paletes_usadas val (length itens) (nat (quantidade cfg)))),
         m_itens_carregados = carga_total (\<lambda>it. 1) itens val (nat (quantidade cfg)),
         m_itens_total = int (length itens),
         m_taxa_utilizacao_itens =
           (real_of_int (carga_total (\<lambda>it. 1) itens val (nat (quantidade cfg)))
              / real (length itens)) * 100,
         m_volume_utilizado =
           real_of_int (carga_total item_vol itens val (nat (quantidade cfg)))
             / real_of_int SCALE_VOL,
         m_volume_disponivel =
           real_of_int (capacidade_volume cfg *
               int (length (paletes_usadas val (length itens) (nat (quantidade cfg)))))
             / real_of_int SCALE_VOL,
         m_taxa_utilizacao_volume =
           (if capacidade_volume cfg *
               int (length (paletes_usadas val (length itens) (nat (quantidade cfg)))) > 0
            then (real_of_int (carga_total item_vol itens val (nat (quantidade cfg))) /
                  real_of_int (capacidade_volume cfg *
               int (length (paletes_usadas val (length itens) (nat (quantidade cfg)))))) * 100
            else 0),
         m_peso_utilizado =
           real_of_int (carga_total item_mass itens val (nat (quantidade cfg)))
             / real_of_int SCALE_MASS,
         m_peso_disponivel =
           real_of_int (capacidade_massa cfg *
               int (length (paletes_usadas val (length itens) (nat (quantidade cfg)))))
             / real_of_int SCALE_MASS,
         m_taxa_utilizacao_peso =
           (if capacidade_massa cfg *
               int (length (paletes_usadas val (length itens) (nat (quantidade cfg)))) > 0
            then (real_of_int (carga_total item_mass itens val (nat (quantidade cfg))) /
                  real_of_int (capacidade_massa cfg *
               int (length (paletes_usadas val (length itens) (nat (quantidade cfg)))))) * 100
            else 0) \<rparr>)"
  using assms by (simp add: calcular_metricas_def somar_paletes_eq Let_def)

lemma metricas_ex_valores:
  "length (paletes_usadas val_ex (length itens_ex) (nat (quantidade cfg_ex))) = 1"
  "carga_total item_vol itens_ex val_ex (nat (quantidade cfg_ex)) = 180000"
  "carga_total item_mass itens_ex val_ex (nat (quantidade cfg_ex)) = 50000"
  "carga_total (\<lambda>it. 1) itens_ex val_ex (nat (quantidade cfg_ex)) = 2"
  "length (paletes_usadas val_sem_carga (length itens_ex) (nat (quantidade cfg_ex))) = 0"
  by code_simp+

subsection \<open>Loaded items\<close>

lemma contagem_soma:
  "int (length (filter Q xs)) = sum_list (map (\<lambda>x. if Q x then 1 else 0) xs)"
  by (induction xs) simp_all

lemma soma_troca:
  fixes f :: "'a \<Rightarrow> 'b \<Rightarrow> int"
  shows "sum_list (map (\<lambda>p. sum_list (map (\<lambda>i. f i p) js)) ps) =
         sum_list (map (\<lambda>i. sum_list (map (\<lambda>p. f i p) ps)) js)"
  by (induction ps) (simp_all add: sum_list_addf)

lemma carga_itens_por_item:
  "carga_total (\<lambda>it. 1) itens val P =
     sum_list (map (\<lambda>i. int (length (filter (\<lambda>p. val (X i p) = 1) [0..<P])))
                   [0..<length itens])"
proof -
  have "carga_total (\<lambda>it. 1) itens val P =
        sum_list (map (\<lambda>p. sum_list (map (\<lambda>i. if val (X i p) = 1 then 1 else 0)
                                         [0..<length itens])) [0..<P])"
    by (simp add: carga_total_def itens_na_palete_def soma_uns contagem_soma)
  also have "\<dots> = sum_list (map (\<lambda>i. sum_list (map (\<lambda>p. if val (X i p) = 1 then 1 else 0)
                                         [0..<P])) [0..<length itens])"
    by (rule soma_troca)
  finally show ?thesis by (simp add: contagem_soma)
qed

lemma carga_itens_nonneg: "0 \<le> carga_total (\<lambda>it. 1) itens val P"
  unfolding carga_itens_por_item by (rule sum_list_nonneg) auto

lemma carga_itens_le:
  assumes "satisfaz val (otimizar_model itens cfg)"
  shows "carga_total (\<lambda>it. 1) itens val (nat (quantidade cfg)) \<le> int (length itens)"
proof -
  have "sum_list (map (\<lambda>i. int (length (filter (\<lambda>p. val (X i p) = 1)
                                  [0..<nat (quantidade cfg)]))) [0..<length itens])
        \<le> sum_list (map (\<lambda>i. 1) [0..<length itens])"
    by (rule sum_list_mono) (use solucao_uma_palete [OF assms] in auto)
  then show ?thesis by (simp add: carga_itens_por_item soma_uns)
qed

lemma main_metricas_sem_erro:
  "main_metricas solve otimizar_btn itens cfg \<noteq> Some (Inl e)"
proof (cases "itens = []")
  case True
  then show ?thesis by (simp add: main_metricas_def)
next
  case False
  then show ?thesis
    by (simp add: main_metricas_def otimizar_eq calcular_metricas_eq)
qed

subsection \<open>The loops of the layout\<close>

lemma empilhar_itens_eq:
  assumes "sorted_wrt (<) js"
    and "\<forall>i \<in> set js. val (X i p) = 1 \<longrightarrow> orientacao val i \<noteq> None"
  shows "empilhar_itens itens val p ox js (fig, z) =
     Inr (fig @ map (\<lambda>i. caixa_3d ox
                          (z + sum_list (map (altura_orientada itens val)
                                 (filter (\<lambda>j. j < i) (filter (\<lambda>i. val (X i p) = 1) js))))
                          (dims_orientadas itens val i) i)
                    (filter (\<lambda>i. val (X i p) = 1) js),
          z + sum_list (map (altura_orientada itens val) (filter (\<lambda>i. val (X i p) = 1) js)))"
  using assms
proof (induction js arbitrary: fig z)
  case Nil
  show ?case by simp
next
  case (Cons i js)
  let ?A = "\<lambda>i. val (X i p) = 1"
  have sorted: "sorted_wrt (<) js" and gt: "\<forall>j \<in> set js. i < j"
    using Cons.prems(1) by simp_all
  have ori: "\<forall>i \<in> set js. ?A i \<longrightarrow> orientacao val i \<noteq> None"
    using Cons.prems(2) by simp
  note IH = Cons.IH [OF sorted ori]
  show ?case
  proof (cases "?A i")
    case False
    have "map (\<lambda>i'. caixa_3d ox
              (z + sum_list (map (altura_orientada itens val)
                     (filter (\<lambda>j. j < i') (filter ?A (i # js)))))
              (dims_orientadas itens val i') i') (filter ?A js)
        = map (\<lambda>i'. caixa_3d ox
              (z + sum_list (map (altura_orientada itens val)
                     (filter (\<lambda>j. j < i') (filter ?A js))))
              (dims_orientadas itens val i') i') (filter ?A js)"
      using False by simp
    with False show ?thesis by (simp add: IH)
  next
    case True
    with Cons.prems(2) obtain k where k: "orientacao val i = Some k"
      by auto
    obtain l' w' h' where d: "dims_orientadas itens val i = (l', w', h')"
      by (cases "dims_orientadas itens val i") auto
    then have perm: "permutacoes (item_l (itens ! i)) (item_w (itens ! i))
                       (item_h (itens ! i)) ! k = (l', w', h')"
      by (simp add: dims_orientadas_def k)
    have h: "altura_orientada itens val i = h'"
      by (simp add: altura_orientada_def d)
    have step: "empilhar_itens itens val p ox (i # js) (fig, z) =
                empilhar_itens itens val p ox js
                  (fig @ [caixa_3d ox z (l', w', h') i], z + h')"
      using True by (simp add: k perm)
    have first: "filter (\<lambda>j. j < i) (filter ?A (i # js)) = []"
      using gt by (auto simp: filter_empty_conv)
    have rest: "map (\<lambda>i'. caixa_3d ox
              (z + sum_list (map (altura_orientada itens val)
                     (filter (\<lambda>j. j < i') (filter ?A (i # js)))))
              (dims_orientadas itens val i') i') (filter ?A js)
        = map (\<lambda>i'. caixa_3d ox
              (z + h' + sum_list (map (altura_orientada itens val)
                     (filter (\<lambda>j. j < i') (filter ?A js))))
              (dims_orientadas itens val i') i') (filter ?A js)"
      using True gt h by (intro map_cong) (auto simp: add.assoc)
    show ?thesis
      unfolding step IH using True first rest by (simp add: d h add.assoc)
  qed
qed

lemma sorted_upt_lt: "sorted_wrt (<) [0..<n]"
  by (simp add: sorted_wrt_upt)

lemma empilhar_palete_eq:
  assumes "\<forall>i \<in> set (itens_na_palete val (length itens) p). orientacao val i \<noteq> None"
  shows "\<exists>z. empilhar_itens itens val p (real p * 2.5) [0..<length itens]
              (fig @ [base_palete (real p * 2.5) p], 0) =
           Inr (fig @ torre_palete itens val p, z)"
proof -
  have "\<forall>i \<in> set [0..<length itens]. val (X i p) = 1 \<longrightarrow> orientacao val i \<noteq> None"
    using assms by (simp add: itens_na_palete_def)
  from empilhar_itens_eq [OF sorted_upt_lt this]
  show ?thesis
    by (simp add: torre_palete_def cursor_z_def itens_na_palete_def)
qed

lemma percorrer_paletes_eq:
  assumes "\<forall>p \<in> set ps. \<forall>i \<in> set (itens_na_palete val (length itens) p).
             orientacao val i \<noteq> None"
  shows "percorrer_paletes itens val ps fig =
         Inr (fig @ concat (map (torre_palete itens val) ps))"
  using assms
proof (induction ps arbitrary: fig)
  case Nil
  show ?case by simp
next
  case (Cons p ps)
  from Cons.prems have "\<forall>i \<in> set (itens_na_palete val (length itens) p).
      orientacao val i \<noteq> None"
    by simp
  from empilhar_palete_eq [OF this, of fig] obtain z where
    "empilhar_itens itens val p (real p * 2.5) [0..<length itens]
              (fig @ [base_palete (real p * 2.5) p], 0) =
           Inr (fig @ torre_palete itens val p, z)" ..
  moreover have "percorrer_paletes itens val ps (fig @ torre_palete itens val p) =
         Inr ((fig @ torre_palete itens val p) @ concat (map (torre_palete itens val) ps))"
    using Cons.prems by (intro Cons.IH) simp
  ultimately show ?case by (simp add: Let_def)
qed


lemma solucao_orientada:
  assumes "solver_correto solve" and "otimizar solve itens cfg = Inr (Some val, st)"
  shows "\<forall>p<nat (quantidade cfg). \<forall>i \<in> set (itens_na_palete val (length itens) p).
           orientacao val i \<noteq> None"
proof (intro allI impI ballI)
  fix p i assume "i \<in> set (itens_na_palete val (length itens) p)"
  then have "i < length itens"
    by (simp add: itens_na_palete_def)
  from satisfaz_orientacao [OF otimizar_satisfaz [OF assms] this]
  show "orientacao val i \<noteq> None" by auto
qed

subsection \<open>The layout of the worked example\<close>

lemma layout_ex:
  "concat (map (torre_palete itens_ex val_ex) [0..<nat (quantidade cfg_ex)]) =
     [base_palete 0 0, caixa_3d 0 0 (0.5, 0.4, 0.3) 0, caixa_3d 0 0.3 (0.5, 0.4, 0.6) 1,
      base_palete 2.5 1]"
  by (simp add: cfg_ex_def itens_ex_def torre_palete_def cursor_z_def itens_na_palete_def
        dims_orientadas_def altura_orientada_def orientacao_def permutacoes_def
        upt_conv_Cons)

lemma leitura_ex:
  "itens_na_palete val_ex (length itens_ex) 0 = [0, 1]"
  "itens_na_palete val_ex (length itens_ex) 1 = []"
  "orientacao val_ex 0 = Some 0"
  "orientacao val_ex 1 = Some 3"
  by code_simp+

lemma cursor_ex: "cursor_z itens_ex val_ex 0 1 = 0.3"
  by (simp add: itens_ex_def cursor_z_def itens_na_palete_def
        dims_orientadas_def altura_orientada_def orientacao_def permutacoes_def
        upt_conv_Cons)

subsection \<open>The model on a dictionary\<close>

lemma todos_map:
  assumes "\<forall>x \<in> set xs. f x = Inr (g x)"
  shows "todos f xs = Inr (map g xs)"
  using assms by (induction xs) simp_all

lemma todos_Inr:
  assumes "todos f xs = Inr ys" and "\<And>x y. x \<in> set xs \<Longrightarrow> f x = Inr y \<Longrightarrow> y = g x"
  shows "ys = map g xs"
  using assms
proof (induction xs arbitrary: ys)
  case Nil
  then show ?case by simp
next
  case (Cons x xs)
  from Cons.prems(1) obtain y ys' where y: "f x = Inr y" and r: "todos f xs = Inr ys'"
    and ys: "ys = y # ys'"
    by (auto split: sum.splits)
  from Cons.prems(2) [of x y] y have "y = g x" by simp
  moreover have "ys' = map g xs"
    using Cons.IH [OF r] Cons.prems(2) by simp
  ultimately show ?case using ys by simp
qed

lemma todos_Inl:
  assumes "todos f xs = Inl e"
  shows "\<exists>x \<in> set xs. f x = Inl e"
  using assms by (induction xs) (auto split: sum.splits)

lemma vezes_Inr: "vezes v c = Inr t \<Longrightarrow> t = (c, v)"
  by (simp add: vezes_def split: if_splits)

lemma menor_igual_Inr: "menor_igual ts b = Inr r \<Longrightarrow> r = Lin ts LE (inteiro b)"
  by (auto simp: menor_igual_def split: if_splits numero.splits)

lemma menor_igual_int64: "limite_int64 b \<Longrightarrow> menor_igual ts b = Inr (Lin ts LE (inteiro b))"
  by (cases b) (simp_all add: menor_igual_def)

lemma restricoes_palete_dict_Inr:
  assumes "restricoes_palete_dict itens d p = Inr rs"
  shows "rs = restricoes_palete itens (config_int d) p"
proof -
  from assms obtain tm rm tv rv where
    tm: "todos (\<lambda>i. vezes (X i p) (item_mass (itens ! i))) [0..<length itens] = Inr tm"
    and rm: "menor_igual tm (d_capacidade_massa d) = Inr rm"
    and tv: "todos (\<lambda>i. vezes (X i p) (item_vol (itens ! i))) [0..<length itens] = Inr tv"
    and rv: "menor_igual tv (d_capacidade_volume d) = Inr rv"
    and rs: "rs = [rm, rv]"
    by (auto simp: restricoes_palete_dict_def split: sum.splits)
  have "tm = map (\<lambda>i. (item_mass (itens ! i), X i p)) [0..<length itens]"
    by (rule todos_Inr [OF tm]) (rule vezes_Inr)
  moreover have "tv = map (\<lambda>i. (item_vol (itens ! i), X i p)) [0..<length itens]"
    by (rule todos_Inr [OF tv]) (rule vezes_Inr)
  ultimately show ?thesis
    using menor_igual_Inr [OF rm] menor_igual_Inr [OF rv] rs
    by (simp add: restricoes_palete_def config_int_def)
qed

lemma restricoes_palete_dict_int64:
  assumes "numeros_int64 itens d"
  shows "restricoes_palete_dict itens d p = Inr (restricoes_palete itens (config_int d) p)"
proof -
  from assms have it: "\<forall>i \<in> set [0..<length itens].
      int64 (item_mass (itens ! i)) \<and> int64 (item_vol (itens ! i))"
    by (simp add: numeros_int64_def list_all_length)
  have tm: "todos (\<lambda>i. vezes (X i p) (item_mass (itens ! i))) [0..<length itens] =
            Inr (map (\<lambda>i. (item_mass (itens ! i), X i p)) [0..<length itens])"
    by (rule todos_map) (use it in \<open>simp add: vezes_def\<close>)
  have tv: "todos (\<lambda>i. vezes (X i p) (item_vol (itens ! i))) [0..<length itens] =
            Inr (map (\<lambda>i. (item_vol (itens ! i), X i p)) [0..<length itens])"
    by (rule todos_map) (use it in \<open>simp add: vezes_def\<close>)
  from assms have lim: "limite_int64 (d_capacidade_massa d)"
    "limite_int64 (d_capacidade_volume d)"
    by (simp_all add: numeros_int64_def)
  show ?thesis
    by (simp add: restricoes_palete_dict_def tm tv menor_igual_int64 [OF lim(1)]
          menor_igual_int64 [OF lim(2)] restricoes_palete_def config_int_def)
qed

lemma termo_objetivo_Inr:
  assumes "(case vezes (X i p) a of Inl e \<Rightarrow> Inl e | Inr t \<Rightarrow> vezes2 t b) = Inr t'"
  shows "t' = (wrap64 (a * b), X i p)"
  using assms by (auto simp: vezes_def vezes2_def split: if_splits)

lemma termos_objetivo_dict_Inr:
  assumes "termos_objetivo_dict itens P = Inr ts"
  shows "ts = termos_objetivo itens P"
proof -
  have "ts = map (\<lambda>(i, p). (wrap64 (item_vol (itens ! i) * get_prioridade (itens ! i)), X i p))
               (concat (map (\<lambda>i. map (\<lambda>p. (i, p)) [0..<P]) [0..<length itens]))"
    by (rule todos_Inr [OF assms [unfolded termos_objetivo_dict_def]])
       (auto dest: termo_objetivo_Inr)
  then show ?thesis
    by (simp add: termos_objetivo_def map_concat comp_def)
qed

lemma termos_objetivo_dict_int64:
  assumes "numeros_int64 itens d"
  shows "termos_objetivo_dict itens P = Inr (termos_objetivo itens P)"
proof -
  from assms have it: "\<And>i. i < length itens \<Longrightarrow>
      int64 (item_vol (itens ! i)) \<and> int64 (get_prioridade (itens ! i))"
    by (simp add: numeros_int64_def list_all_length)
  have "termos_objetivo_dict itens P =
        Inr (map (\<lambda>(i, p). (wrap64 (item_vol (itens ! i) * get_prioridade (itens ! i)), X i p))
               (concat (map (\<lambda>i. map (\<lambda>p. (i, p)) [0..<P]) [0..<length itens])))"
    unfolding termos_objetivo_dict_def
    by (rule todos_map) (use it in \<open>auto simp: vezes_def vezes2_def\<close>)
  then show ?thesis
    by (simp add: termos_objetivo_def map_concat comp_def)
qed

lemma otimizar_model_dict_Inr:
  assumes "otimizar_model_dict itens d = Inr M"
  shows "M = otimizar_model itens (config_int d)"
proof -
  let ?P = "nat (d_quantidade d)"
  from assms obtain rps ts where
    rps: "todos (restricoes_palete_dict itens d) [0..<?P] = Inr rps"
    and ts: "termos_objetivo_dict itens ?P = Inr ts"
    and M: "M = \<lparr> variaveis = criar_variaveis (length itens) ?P,
                  restricoes =
                    concat (map (restricoes_item itens ?P) [0..<length itens]) @
                    concat (map (\<lambda>i. concat (map (restricoes_par itens i) [0..<length itens]))
                                [0..<length itens]) @
                    concat rps,
                  objetivo = Maximize ts \<rparr>"
    by (auto simp: otimizar_model_dict_def Let_def split: sum.splits)
  have "rps = map (restricoes_palete itens (config_int d)) [0..<?P]"
    by (rule todos_Inr [OF rps]) (rule restricoes_palete_dict_Inr)
  with termos_objetivo_dict_Inr [OF ts] M show ?thesis
    by (simp add: otimizar_model_def Let_def config_int_def)
qed

lemma otimizar_model_dict_int64:
  assumes "numeros_int64 itens d"
  shows "otimizar_model_dict itens d = Inr (otimizar_model itens (config_int d))"
proof -
  let ?P = "nat (d_quantidade d)"
  have "todos (restricoes_palete_dict itens d) [0..<?P] =
        Inr (map (restricoes_palete itens (config_int d)) [0..<?P])"
    by (rule todos_map) (simp add: restricoes_palete_dict_int64 [OF assms])
  then show ?thesis
    by (simp add: otimizar_model_dict_def Let_def termos_objetivo_dict_int64 [OF assms]
          otimizar_model_def config_int_def)
qed

lemma otimizar_model_dict_sem_paletes:
  assumes "d_quantidade d < 1"
  shows "otimizar_model_dict itens d = Inr (otimizar_model itens (config_int d))"
proof -
  from assms have P: "nat (d_quantidade d) = 0" by simp
  have "concat (map (\<lambda>i. []) [0..<n]) = ([] :: (nat \<times> nat) list)" for n
    by (induction n) simp_all
  then have "concat (map (\<lambda>i. map (\<lambda>p. (i, p)) [0..<0]) [0..<length itens]) = []"
    by simp
  then have "termos_objetivo_dict itens 0 = Inr []"
    unfolding termos_objetivo_dict_def by (simp only: todos.simps)
  moreover have "termos_objetivo itens 0 = []"
    by (simp add: termos_objetivo_def)
  ultimately show ?thesis
    by (simp add: otimizar_model_dict_def Let_def P otimizar_model_def config_int_def)
qed

lemma otimizar_dict_modelo:
  assumes "otimizar_model_dict itens d = Inr (otimizar_model itens (config_int d))"
  shows "otimizar_dict solve itens d = otimizar solve itens (config_int d)"
  by (simp add: otimizar_dict_def assms otimizar_def Let_def)

text \<open>
  Whatever the call on a dictionary returns, the call on its integer configuration
  returns too: what is proved below of the solutions returned by \<open>otimizar\<close> holds of
  the solutions returned by \<open>otimizar_dict\<close>.
\<close>

lemma otimizar_dict_Inr:
  assumes "otimizar_dict solve itens d = Inr r"
  shows "otimizar solve itens (config_int d) = Inr r"
proof -
  from assms obtain M where M: "otimizar_model_dict itens d = Inr M"
    by (auto simp: otimizar_dict_def split: sum.splits)
  from otimizar_model_dict_Inr [OF M] M assms show ?thesis
    by (simp add: otimizar_dict_modelo)
qed

text \<open>The only exception of the call is the one of the solver library.\<close>

lemma menor_igual_Inl: "menor_igual ts b = Inl e \<Longrightarrow> e = TypeError"
  by (auto simp: menor_igual_def split: if_splits numero.splits)

lemma todos_vezes_Inl: "todos (\<lambda>i. vezes (v i) (c i)) js = Inl e \<Longrightarrow> e = TypeError"
  by (auto dest!: todos_Inl simp: vezes_def split: if_splits)

lemma restricoes_palete_dict_Inl:
  assumes "restricoes_palete_dict itens d p = Inl e"
  shows "e = TypeError"
  using assms
  by (auto simp: restricoes_palete_dict_def split: sum.splits
           dest: todos_vezes_Inl menor_igual_Inl)

lemma termos_objetivo_dict_Inl:
  assumes "termos_objetivo_dict itens P = Inl e"
  shows "e = TypeError"
  using todos_Inl [OF assms [unfolded termos_objetivo_dict_def]]
  by (auto simp: vezes_def vezes2_def split: if_splits)

lemma otimizar_model_dict_Inl:
  assumes "otimizar_model_dict itens d = Inl e"
  shows "e = TypeError"
  using assms
  by (auto simp: otimizar_model_dict_def Let_def split: sum.splits
           dest: todos_Inl restricoes_palete_dict_Inl termos_objetivo_dict_Inl)

lemma otimizar_dict_Inl:
  assumes "otimizar_dict solve itens d = Inl e"
  shows "e = TypeError"
  using assms
  by (auto simp: otimizar_dict_def split: sum.splits prod.splits if_splits
           dest: otimizar_model_dict_Inl)

lemma modelo_enorme:
  "otimizar_model_dict itens_enormes dict_um = Inr (otimizar_model itens_enormes cfg_um)"
proof -
  have "numeros_int64 itens_enormes dict_um"
    by (simp add: numeros_int64_def itens_enormes_def dict_um_def int64_def get_prioridade_def)
  moreover have "config_int dict_um = cfg_um"
    by (simp add: config_int_def dict_um_def cfg_um_def)
  ultimately show ?thesis
    using otimizar_model_dict_int64 by metis
qed

lemma todos_length: "todos f xs = Inr ys \<Longrightarrow> length ys = length xs"
  by (induction xs arbitrary: ys) (auto split: sum.splits)

text \<open>A float capacity ends the call as soon as one pallet has one item.\<close>

lemma float_recusado:
  assumes "itens \<noteq> []" and "0 < d_quantidade d" and "d_capacidade_massa d = PyFloat r"
  shows "otimizar_dict solve itens d = Inl TypeError"
proof -
  let ?tm = "todos (\<lambda>i. vezes (X i 0) (item_mass (itens ! i))) [0..<length itens]"
  have row: "restricoes_palete_dict itens d 0 = Inl TypeError"
  proof (cases ?tm)
    case (Inl e)
    from todos_vezes_Inl [OF Inl] Inl show ?thesis
      by (simp add: restricoes_palete_dict_def)
  next
    case (Inr tm)
    from todos_length [OF Inr] assms(1) have "tm \<noteq> []" by auto
    then have "menor_igual tm (d_capacidade_massa d) = Inl TypeError"
      by (simp add: menor_igual_def assms(3))
    with Inr show ?thesis
      by (simp add: restricoes_palete_dict_def)
  qed
  from assms(2) have "[0..<nat (d_quantidade d)] = 0 # [1..<nat (d_quantidade d)]"
    by (simp add: upt_conv_Cons)
  with row have "todos (restricoes_palete_dict itens d) [0..<nat (d_quantidade d)] =
                 Inl TypeError"
    by simp
  then show ?thesis
    by (simp add: otimizar_dict_def otimizar_model_dict_def Let_def)
qed

lemma otimizar_dict_aceito:
  assumes "d_quantidade d < 1 \<or> numeros_int64 itens d"
  shows "otimizar_dict solve itens d = otimizar solve itens (config_int d)"
  using assms otimizar_model_dict_sem_paletes otimizar_model_dict_int64
  by (intro otimizar_dict_modelo) blast

lemma config_int_ex:
  "config_int dict_zero = cfg_zero" "config_int dict_nula = cfg_nula"
  by (simp_all add: config_int_def dict_zero_def dict_nula_def cfg_zero_def cfg_nula_def)

lemma otimizar_dict_zero:
  "otimizar_dict (resolver_com val_sem_carga) itens_ex dict_zero =
     Inr (Some val_sem_carga, FEASIBLE)"
proof -
  have "d_quantidade dict_zero < 1"
    by (simp add: dict_zero_def)
  then have "otimizar_dict (resolver_com val_sem_carga) itens_ex dict_zero =
             otimizar (resolver_com val_sem_carga) itens_ex cfg_zero"
    using otimizar_dict_aceito [of dict_zero] by (simp add: config_int_ex)
  then show ?thesis
    by (simp add: otimizar_eq resolver_com_def satisfaz_zero)
qed

lemma numeros_nulos: "numeros_int64 itens_nulos dict_nula"
  by (simp add: numeros_int64_def itens_nulos_def dict_nula_def int64_def get_prioridade_def)

lemma otimizar_dict_nula:
  "otimizar_dict (resolver_com val_nulo) itens_nulos dict_nula = Inr (Some val_nulo, FEASIBLE)"
proof -
  have "otimizar_dict (resolver_com val_nulo) itens_nulos dict_nula =
        otimizar (resolver_com val_nulo) itens_nulos cfg_nula"
    using otimizar_dict_aceito [of dict_nula itens_nulos] numeros_nulos
    by (simp add: config_int_ex)
  then show ?thesis
    by (simp add: otimizar_eq resolver_com_def satisfaz_nulo)
qed

subsection \<open>Items of negative mass\<close>

lemma negativos_ex:
  "satisfaz val_tudo (otimizar_model itens_negativos cfg_negativa)"
  "Lin [(- 5, X 0 0)] LE (- 1) \<in> set (restricoes (otimizar_model itens_negativos cfg_negativa))"
  "\<not> vale (descarregar 0 val_tudo) (Lin [(- 5, X 0 0)] LE (- 1))"
  "\<not> satisfaz (descarregar 0 val_tudo) (otimizar_model itens_negativos cfg_negativa)"
  "satisfaz val_tudo (otimizar_model itens_csv cfg_um)"
  "\<not> satisfaz (descarregar 1 val_tudo) (otimizar_model itens_csv cfg_um)"
  by code_simp+

subsection \<open>The objective of the worked example\<close>

lemma objetivo_ex:
  "objetivo (otimizar_model itens_ex cfg_ex) =
     Maximize [(180000, X 0 0), (180000, X 0 1), (240000, X 1 0), (240000, X 1 1),
               (36000, X 2 0), (36000, X 2 1)]"
  by (simp add: otimizar_model_def Let_def termos_objetivo_def itens_ex_def cfg_ex_def
        get_prioridade_def wrap64_def upt_conv_Cons)

section \<open>Capacity of a pallet\<close>

text \<open>
  C1. For every pallet \<open>k\<close> below the pallet count the built model contains the two
  aggregate capacity constraints (the masses, and the volumes, of the items weighted by
  \<open>x[i,k]\<close> stay within the configured capacity). Consequently, in every solution
  returned by \<^verbatim>\<open>otimizar\<close> (the solver keeping its contract), the total mass and the
  total volume of the items read as assigned to pallet \<open>k\<close> do not exceed the
  capacities.
\<close>

theorem capacidade_por_palete:
  assumes "k < nat (quantidade cfg)"
  shows "Lin (map (\<lambda>i. (item_mass (itens ! i), X i k)) [0..<length itens]) LE
             (capacidade_massa cfg) \<in> set (restricoes (otimizar_model itens cfg))
       \<and> Lin (map (\<lambda>i. (item_vol (itens ! i), X i k)) [0..<length itens]) LE
             (capacidade_volume cfg) \<in> set (restricoes (otimizar_model itens cfg))
       \<and> (solver_correto solve \<and> otimizar solve itens cfg = Inr (Some val, st) \<longrightarrow>
            sum_list (map (\<lambda>i. item_mass (itens ! i))
                          (itens_na_palete val (length itens) k)) \<le> capacidade_massa cfg
          \<and> sum_list (map (\<lambda>i. item_vol (itens ! i))
                          (itens_na_palete val (length itens) k)) \<le> capacidade_volume cfg)"
proof -
  let ?M = "otimizar_model itens cfg"
  let ?cm = "Lin (map (\<lambda>i. (item_mass (itens ! i), X i k)) [0..<length itens]) LE
                 (capacidade_massa cfg)"
  let ?cv = "Lin (map (\<lambda>i. (item_vol (itens ! i), X i k)) [0..<length itens]) LE
                 (capacidade_volume cfg)"
  have cm: "?cm \<in> set (restricoes ?M)"
    by (rule restricoes_palete_in_model [OF assms]) (simp add: restricoes_palete_def)
  have cv: "?cv \<in> set (restricoes ?M)"
    by (rule restricoes_palete_in_model [OF assms]) (simp add: restricoes_palete_def)
  have sol: "sum_list (map (\<lambda>i. item_mass (itens ! i))
                          (itens_na_palete val (length itens) k)) \<le> capacidade_massa cfg
          \<and> sum_list (map (\<lambda>i. item_vol (itens ! i))
                          (itens_na_palete val (length itens) k)) \<le> capacidade_volume cfg"
    if ok: "solver_correto solve" and ret: "otimizar solve itens cfg = Inr (Some val, st)"
  proof -
    have sat: "satisfaz val ?M"
      by (rule otimizar_satisfaz [OF ok ret])
    have bin: "\<forall>i \<in> set [0..<length itens]. val (X i k) = 0 \<or> val (X i k) = 1"
      using satisfaz_X [OF sat _ assms] by simp
    have "vale val ?cm" and "vale val ?cv"
      using satisfaz_restricao [OF sat] cm cv by blast+
    then show ?thesis
      using soma_binaria [OF bin, of "\<lambda>i. item_mass (itens ! i)"]
            soma_binaria [OF bin, of "\<lambda>i. item_vol (itens ! i)"]
      by (simp add: itens_na_palete_def)
  qed
  from cm cv sol show ?thesis by blast
qed

theorem capacidade_por_palete_witness:
  "0 < nat (quantidade cfg_ex)
   \<and> solver_correto (resolver_com val_ex)
   \<and> otimizar (resolver_com val_ex) itens_ex cfg_ex = Inr (Some val_ex, FEASIBLE)
   \<and> sum_list (map (\<lambda>i. item_mass (itens_ex ! i))
                   (itens_na_palete val_ex (length itens_ex) 0)) \<le> capacidade_massa cfg_ex
   \<and> sum_list (map (\<lambda>i. item_vol (itens_ex ! i))
                   (itens_na_palete val_ex (length itens_ex) 0)) \<le> capacidade_volume cfg_ex"
proof -
  have k: "0 < nat (quantidade cfg_ex)"
    by (simp add: cfg_ex_def)
  from capacidade_por_palete [OF k, of itens_ex "resolver_com val_ex" val_ex FEASIBLE]
       resolver_com_correto [of val_ex] otimizar_ex k
  show ?thesis by blast
qed

section \<open>One pallet per item\<close>

text \<open>
  C2, as the program has it. For every item \<open>i\<close> the built model contains the
  constraint that the sum of \<open>x[i,k]\<close> over the pallets is at most 1, so in every
  solution returned by \<^verbatim>\<open>otimizar\<close> the item is read as assigned to at most one
  pallet. An item of non-negative mass and volume is not forced to be loaded: taking it
  off its pallet turns values that satisfy the model into values that satisfy it.
\<close>

theorem no_maximo_uma_palete:
  assumes "i < length itens"
  shows "Lin (map (\<lambda>p. (1, X i p)) [0..<nat (quantidade cfg)]) LE 1
           \<in> set (restricoes (otimizar_model itens cfg))
       \<and> (solver_correto solve \<and> otimizar solve itens cfg = Inr (Some val, st) \<longrightarrow>
            length (filter (\<lambda>p. val (X i p) = 1) [0..<nat (quantidade cfg)]) \<le> 1)
       \<and> (satisfaz val' (otimizar_model itens cfg) \<and>
          0 \<le> item_mass (itens ! i) \<and> 0 \<le> item_vol (itens ! i) \<longrightarrow>
            satisfaz (descarregar i val') (otimizar_model itens cfg) \<and>
            filter (\<lambda>p. descarregar i val' (X i p) = 1) [0..<nat (quantidade cfg)] = [])"
proof -
  let ?M = "otimizar_model itens cfg"
  let ?P = "nat (quantidade cfg)"
  let ?c = "Lin (map (\<lambda>p. (1, X i p)) [0..<?P]) LE 1"
  have c: "?c \<in> set (restricoes ?M)"
    by (rule restricoes_item_in_model [OF assms]) (simp add: restricoes_item_def)
  have one: "length (filter (\<lambda>p. val (X i p) = 1) [0..<?P]) \<le> 1"
    if ok: "solver_correto solve" and ret: "otimizar solve itens cfg = Inr (Some val, st)"
    by (rule solucao_uma_palete [OF otimizar_satisfaz [OF ok ret] assms])
  have un: "satisfaz (descarregar i val') ?M \<and>
            filter (\<lambda>p. descarregar i val' (X i p) = 1) [0..<?P] = []"
    if "satisfaz val' ?M" and "0 \<le> item_mass (itens ! i)" and "0 \<le> item_vol (itens ! i)"
    using satisfaz_descarregar [of val' itens cfg i] that by simp
  from c one un show ?thesis by blast
qed

theorem no_maximo_uma_palete_witness:
  "0 < length itens_ex
   \<and> solver_correto (resolver_com val_ex)
   \<and> otimizar (resolver_com val_ex) itens_ex cfg_ex = Inr (Some val_ex, FEASIBLE)
   \<and> length (filter (\<lambda>p. val_ex (X 0 p) = 1) [0..<nat (quantidade cfg_ex)]) \<le> 1
   \<and> satisfaz val_ex (otimizar_model itens_ex cfg_ex)
   \<and> 0 \<le> item_mass (itens_ex ! 0) \<and> 0 \<le> item_vol (itens_ex ! 0)
   \<and> satisfaz (descarregar 0 val_ex) (otimizar_model itens_ex cfg_ex)
   \<and> filter (\<lambda>p. descarregar 0 val_ex (X 0 p) = 1) [0..<nat (quantidade cfg_ex)] = []"
proof -
  have i: "0 < length itens_ex"
    by (simp add: itens_ex_def)
  have pos: "0 \<le> item_mass (itens_ex ! 0) \<and> 0 \<le> item_vol (itens_ex ! 0)"
    by (simp add: itens_ex_def)
  from no_maximo_uma_palete [OF i, of cfg_ex "resolver_com val_ex" val_ex FEASIBLE val_ex]
       resolver_com_correto [of val_ex] otimizar_ex satisfaz_ex i pos
  show ?thesis by blast
qed

text \<open>
  C2 as the specification words it does not hold for an item of negative mass. With the
  mass \<open>-5\<close> and the mass capacity \<open>-1\<close> the capacity constraint \<open>-5 \<cdot> x[0,0] \<le> -1\<close> is in
  the model and fails as soon as the item is not loaded; and beside an item of mass
  \<open>2000000\<close> on a pallet of capacity \<open>1000000\<close>, the item of mass \<open>-1500000\<close> cannot be
  taken off.
\<close>

theorem no_maximo_uma_palete_counterexample:
  "satisfaz val_tudo (otimizar_model itens_negativos cfg_negativa)
   \<and> Lin [(- 5, X 0 0)] LE (- 1)
        \<in> set (restricoes (otimizar_model itens_negativos cfg_negativa))
   \<and> \<not> vale (descarregar 0 val_tudo) (Lin [(- 5, X 0 0)] LE (- 1))
   \<and> \<not> satisfaz (descarregar 0 val_tudo) (otimizar_model itens_negativos cfg_negativa)
   \<and> satisfaz val_tudo (otimizar_model itens_csv cfg_um)
   \<and> \<not> satisfaz (descarregar 1 val_tudo) (otimizar_model itens_csv cfg_um)"
  using negativos_ex by (intro conjI)

section \<open>The objective\<close>

text \<open>
  C3, as the program has it. The objective of the built model is a maximisation over
  the variables \<open>x[i,k]\<close>; the coefficient of \<open>x[i,k]\<close> is the product of the volume
  and the priority of item \<open>i\<close> (1 when the item has none) taken in 64-bit arithmetic.
  Whenever these products fit in 64 bits, the value of the objective is the sum over
  all items \<open>i\<close> and pallets \<open>k\<close> of \<open>x[i,k] \<cdot> vol(i) \<cdot> prioridade(i)\<close>. Changing the mass
  and the destination of the items leaves the objective as it is.
\<close>

theorem objetivo_volume_prioridade:
  "\<exists>ts. objetivo (otimizar_model itens cfg) = Maximize ts
      \<and> (\<forall>val. valor_lin val ts =
            (\<Sum>i<length itens. \<Sum>k<nat (quantidade cfg).
                val (X i k) *
                wrap64 (item_vol (itens ! i) *
                        (case item_prioridade (itens ! i) of None \<Rightarrow> 1 | Some q \<Rightarrow> q))))
      \<and> (list_all (\<lambda>it. int64 (item_vol it *
                      (case item_prioridade it of None \<Rightarrow> 1 | Some q \<Rightarrow> q))) itens \<longrightarrow>
         (\<forall>val. valor_lin val ts =
            (\<Sum>i<length itens. \<Sum>k<nat (quantidade cfg).
                val (X i k) * item_vol (itens ! i) *
                (case item_prioridade (itens ! i) of None \<Rightarrow> 1 | Some q \<Rightarrow> q))))
      \<and> objetivo (otimizar_model
            (map (\<lambda>it. it\<lparr>item_mass := m it, item_destino := d it\<rparr>) itens) cfg) = Maximize ts"
proof -
  let ?ts = "termos_objetivo itens (nat (quantidade cfg))"
  have a: "objetivo (otimizar_model itens cfg) = Maximize ?ts"
    by (simp add: otimizar_model_def Let_def)
  have b: "valor_lin val ?ts =
            (\<Sum>i<length itens. \<Sum>k<nat (quantidade cfg).
                val (X i k) *
                wrap64 (item_vol (itens ! i) *
                        (case item_prioridade (itens ! i) of None \<Rightarrow> 1 | Some q \<Rightarrow> q)))" for val
    unfolding valor_termos_objetivo by (simp add: get_prioridade_def)
  have c: "objetivo (otimizar_model
            (map (\<lambda>it. it\<lparr>item_mass := m it, item_destino := d it\<rparr>) itens) cfg) = Maximize ?ts"
    by (simp add: otimizar_model_def Let_def termos_objetivo_massa_destino)
  from a b c valor_termos_objetivo_int64 [of itens _ "nat (quantidade cfg)"]
  show ?thesis by blast
qed

theorem objetivo_volume_prioridade_witness:
  "list_all (\<lambda>it. int64 (item_vol it *
                (case item_prioridade it of None \<Rightarrow> 1 | Some q \<Rightarrow> q))) itens_ex
   \<and> objetivo (otimizar_model itens_ex cfg_ex) =
       Maximize [(180000, X 0 0), (180000, X 0 1), (240000, X 1 0), (240000, X 1 1),
                 (36000, X 2 0), (36000, X 2 1)]
   \<and> valor_lin val_ex [(180000, X 0 0), (180000, X 0 1), (240000, X 1 0), (240000, X 1 1),
                       (36000, X 2 0), (36000, X 2 1)] = 420000
   \<and> (\<Sum>i<length itens_ex. \<Sum>k<nat (quantidade cfg_ex).
         val_ex (X i k) * item_vol (itens_ex ! i) *
         (case item_prioridade (itens_ex ! i) of None \<Rightarrow> 1 | Some q \<Rightarrow> q)) = 420000"
proof -
  let ?ts = "[(180000, X 0 0), (180000, X 0 1), (240000, X 1 0), (240000, X 1 1),
              (36000, X 2 0), (36000, X 2 1)]"
  have h: "list_all (\<lambda>it. int64 (item_vol it *
                (case item_prioridade it of None \<Rightarrow> 1 | Some q \<Rightarrow> q))) itens_ex"
    by (simp add: itens_ex_def int64_def)
  have v: "valor_lin val_ex ?ts = 420000"
    by (simp add: valor_lin_def)
  from objetivo_volume_prioridade [of itens_ex cfg_ex] obtain ts where
    ts: "objetivo (otimizar_model itens_ex cfg_ex) = Maximize ts"
    and eq: "list_all (\<lambda>it. int64 (item_vol it *
                (case item_prioridade it of None \<Rightarrow> 1 | Some q \<Rightarrow> q))) itens_ex \<longrightarrow>
         (\<forall>val. valor_lin val ts =
            (\<Sum>i<length itens_ex. \<Sum>k<nat (quantidade cfg_ex).
                val (X i k) * item_vol (itens_ex ! i) *
                (case item_prioridade (itens_ex ! i) of None \<Rightarrow> 1 | Some q \<Rightarrow> q)))"
    by blast
  from ts have t: "ts = ?ts"
    by (simp add: objetivo_ex)
  from eq h have "valor_lin val_ex ts =
      (\<Sum>i<length itens_ex. \<Sum>k<nat (quantidade cfg_ex).
         val_ex (X i k) * item_vol (itens_ex ! i) *
         (case item_prioridade (itens_ex ! i) of None \<Rightarrow> 1 | Some q \<Rightarrow> q))"
    by blast
  with t v have s: "(\<Sum>i<length itens_ex. \<Sum>k<nat (quantidade cfg_ex).
         val_ex (X i k) * item_vol (itens_ex ! i) *
         (case item_prioridade (itens_ex ! i) of None \<Rightarrow> 1 | Some q \<Rightarrow> q)) = 420000"
    by (simp only:)
  from h objetivo_ex v s show ?thesis by (intro conjI)
qed

text \<open>
  C3 as the specification words it does not hold: an item of volume \<open>2\<^sup>6\<^sup>0\<close> and
  priority 16 has the product \<open>2\<^sup>6\<^sup>4\<close>, and its coefficient in the objective is 0.
\<close>

theorem objetivo_volume_prioridade_counterexample:
  "otimizar_model_dict itens_enormes dict_um = Inr (otimizar_model itens_enormes cfg_um)
   \<and> objetivo (otimizar_model itens_enormes cfg_um) = Maximize [(0, X 0 0)]
   \<and> item_vol (itens_enormes ! 0) = 2 ^ 60
   \<and> item_prioridade (itens_enormes ! 0) = Some 16
   \<and> (1 :: int) * item_vol (itens_enormes ! 0) * 16 = 18446744073709551616"
proof -
  have "objetivo (otimizar_model itens_enormes cfg_um) = Maximize [(0, X 0 0)]"
    by (simp add: otimizar_model_def Let_def termos_objetivo_def itens_enormes_def
          cfg_um_def get_prioridade_def wrap64_def)
  moreover have "item_vol (itens_enormes ! 0) = 2 ^ 60"
    "item_prioridade (itens_enormes ! 0) = Some 16"
    "(1 :: int) * item_vol (itens_enormes ! 0) * 16 = 18446744073709551616"
    by (simp_all add: itens_enormes_def)
  ultimately show ?thesis
    using modelo_enorme by simp
qed

section \<open>Stacking\<close>

text \<open>
  C4. For every ordered pair of distinct items \<open>(i, j)\<close> the built model contains the
  constraint \<open>s[i,j] = 0\<close> when item \<open>j\<close> is fragile, and when item \<open>i\<close> is heavier than
  item \<open>j\<close>. Every constraint of the model that mentions a variable \<open>s[i,j]\<close> is such a
  constraint. Hence, in every solution returned by \<^verbatim>\<open>otimizar\<close>, \<open>s[i,j] = 1\<close> only
  when \<open>j\<close> is not fragile and \<open>i\<close> is not heavier than \<open>j\<close>.
\<close>

theorem exclusao_empilhamento:
  "(\<forall>i<length itens. \<forall>j<length itens.
       i \<noteq> j \<and> (item_f (itens ! j) \<noteq> 0 \<or> item_mass (itens ! i) > item_mass (itens ! j)) \<longrightarrow>
       Lin [(1, S i j)] EQ 0 \<in> set (restricoes (otimizar_model itens cfg)))
   \<and> (\<forall>c \<in> set (restricoes (otimizar_model itens cfg)). \<forall>i j.
       S i j \<in> set (vars_de c) \<longrightarrow>
       c = Lin [(1, S i j)] EQ 0 \<and> i < length itens \<and> j < length itens \<and> i \<noteq> j \<and>
       (item_f (itens ! j) \<noteq> 0 \<or> item_mass (itens ! i) > item_mass (itens ! j)))
   \<and> (solver_correto solve \<and> otimizar solve itens cfg = Inr (Some val, st) \<longrightarrow>
       (\<forall>i<length itens. \<forall>j<length itens. i \<noteq> j \<and> val (S i j) = 1 \<longrightarrow>
          item_f (itens ! j) = 0 \<and> item_mass (itens ! i) \<le> item_mass (itens ! j)))"
proof (intro conjI allI impI ballI)
  fix i j
  assume "i < length itens" "j < length itens"
    and "i \<noteq> j \<and> (item_f (itens ! j) \<noteq> 0 \<or> item_mass (itens ! i) > item_mass (itens ! j))"
  then show "Lin [(1, S i j)] EQ 0 \<in> set (restricoes (otimizar_model itens cfg))"
    using restricao_S_no_modelo [of i itens j cfg] by simp
next
  fix c i j
  assume c: "c \<in> set (restricoes (otimizar_model itens cfg))" and v: "S i j \<in> set (vars_de c)"
  note r = so_restricoes_S [OF c v]
  from r show "c = Lin [(1, S i j)] EQ 0" by simp
  from r show "i < length itens" by simp
  from r show "j < length itens" by simp
  from r show "i \<noteq> j" by simp
  from r show "item_f (itens ! j) \<noteq> 0 \<or> item_mass (itens ! i) > item_mass (itens ! j)"
    by simp
next
  fix i j
  assume h: "solver_correto solve \<and> otimizar solve itens cfg = Inr (Some val, st)"
    and ij: "i < length itens" "j < length itens" and s: "i \<noteq> j \<and> val (S i j) = 1"
  have sat: "satisfaz val (otimizar_model itens cfg)"
    using otimizar_satisfaz h by blast
  note r = solucao_sem_S [OF sat ij conjunct1 [OF s] conjunct2 [OF s]]
  from r show "item_f (itens ! j) = 0" by simp
  from r show "item_mass (itens ! i) \<le> item_mass (itens ! j)" by simp
qed

theorem exclusao_empilhamento_witness:
  "(0::nat) < length itens_ex \<and> (2::nat) < length itens_ex \<and> (0::nat) \<noteq> 2
   \<and> item_f (itens_ex ! 2) \<noteq> 0
   \<and> Lin [(1, S 0 2)] EQ 0 \<in> set (restricoes (otimizar_model itens_ex cfg_ex))
   \<and> S 0 2 \<in> set (vars_de (Lin [(1, S 0 2)] EQ 0))
   \<and> solver_correto (resolver_com val_ex)
   \<and> otimizar (resolver_com val_ex) itens_ex cfg_ex = Inr (Some val_ex, FEASIBLE)
   \<and> (1::nat) < length itens_ex \<and> (0::nat) \<noteq> 1 \<and> val_ex (S 0 1) = 1
   \<and> item_f (itens_ex ! 1) = 0 \<and> item_mass (itens_ex ! 0) \<le> item_mass (itens_ex ! 1)"
proof -
  note inst = exclusao_empilhamento [of itens_ex cfg_ex "resolver_com val_ex" val_ex FEASIBLE]
  have h: "(0::nat) < length itens_ex" "(2::nat) < length itens_ex" "(1::nat) < length itens_ex"
    "item_f (itens_ex ! 2) \<noteq> 0" "val_ex (S 0 1) = 1"
    by (simp_all add: itens_ex_def)
  have a: "Lin [(1, S 0 2)] EQ 0 \<in> set (restricoes (otimizar_model itens_ex cfg_ex))"
    using inst [THEN conjunct1, rule_format, of 0 2] h by simp
  have b: "item_f (itens_ex ! 1) = 0 \<and> item_mass (itens_ex ! 0) \<le> item_mass (itens_ex ! 1)"
    using inst [THEN conjunct2, THEN conjunct2, rule_format, of 0 1]
          resolver_com_correto [of val_ex] otimizar_ex h by simp
  from a b h resolver_com_correto [of val_ex] otimizar_ex show ?thesis by simp
qed

section \<open>Orientation\<close>

text \<open>
  C5. For a rotatable item \<open>i\<close> the built model constrains the sum of the six
  orientation variables \<open>r[i,0..5]\<close> to be 1, so in a returned solution exactly one of
  them is 1. For an item that is not rotatable the model fixes \<open>r[i,0] = 1\<close> and
  \<open>r[i,k] = 0\<close> for \<open>k\<close> from 1 to 5, so the orientation read from a returned solution
  is index 0. Index 0 of \<^verbatim>\<open>permutacoes\<close> is the original order \<open>(l, w, h)\<close>.
\<close>

theorem selecao_orientacao:
  assumes "i < length itens"
  shows "(item_o (itens ! i) \<noteq> 0 \<longrightarrow>
            Lin (map (\<lambda>k. (1, R i k)) [0..<6]) EQ 1
              \<in> set (restricoes (otimizar_model itens cfg)))
       \<and> (item_o (itens ! i) = 0 \<longrightarrow>
            Lin [(1, R i 0)] EQ 1 \<in> set (restricoes (otimizar_model itens cfg)) \<and>
            (\<forall>k \<in> {1..<6}.
               Lin [(1, R i k)] EQ 0 \<in> set (restricoes (otimizar_model itens cfg))))
       \<and> (solver_correto solve \<and> otimizar solve itens cfg = Inr (Some val, st) \<longrightarrow>
            (item_o (itens ! i) \<noteq> 0 \<longrightarrow> (\<exists>!k. k < 6 \<and> val (R i k) = 1)) \<and>
            (item_o (itens ! i) = 0 \<longrightarrow>
               orientacao val i = Some 0 \<and> (\<forall>k \<in> {1..<6}. val (R i k) = 0)))
       \<and> permutacoes l w h ! 0 = (l, w, h)"
proof (intro conjI impI ballI)
  assume "item_o (itens ! i) \<noteq> 0"
  then show "Lin (map (\<lambda>k. (1, R i k)) [0..<6]) EQ 1
               \<in> set (restricoes (otimizar_model itens cfg))"
    by (rule rotacao_livre_no_modelo [OF assms])
next
  assume "item_o (itens ! i) = 0"
  then show "Lin [(1, R i 0)] EQ 1 \<in> set (restricoes (otimizar_model itens cfg))"
    by (rule rotacao_fixa_no_modelo(1) [OF assms])
next
  fix k :: nat
  assume "item_o (itens ! i) = 0" and "k \<in> {1..<6}"
  then show "Lin [(1, R i k)] EQ 0 \<in> set (restricoes (otimizar_model itens cfg))"
    by (rule rotacao_fixa_no_modelo(2) [OF assms])
next
  assume "solver_correto solve \<and> otimizar solve itens cfg = Inr (Some val, st)"
    and "item_o (itens ! i) \<noteq> 0"
  then show "\<exists>!k. k < 6 \<and> val (R i k) = 1"
    using solucao_rotacao_livre [OF otimizar_satisfaz assms] by blast
next
  assume "solver_correto solve \<and> otimizar solve itens cfg = Inr (Some val, st)"
    and "item_o (itens ! i) = 0"
  then show "orientacao val i = Some 0"
    using solucao_rotacao_fixa(1) [OF otimizar_satisfaz assms] by blast
next
  fix k :: nat
  assume "solver_correto solve \<and> otimizar solve itens cfg = Inr (Some val, st)"
    and "item_o (itens ! i) = 0" and "k \<in> {1..<6}"
  then show "val (R i k) = 0"
    using solucao_rotacao_fixa(2) [OF otimizar_satisfaz assms] by blast
next
  show "permutacoes l w h ! 0 = (l, w, h)"
    by (simp add: permutacoes_def)
qed

theorem selecao_orientacao_witness:
  "(0::nat) < length itens_ex \<and> item_o (itens_ex ! 0) = 0
   \<and> (1::nat) < length itens_ex \<and> item_o (itens_ex ! 1) \<noteq> 0
   \<and> solver_correto (resolver_com val_ex)
   \<and> otimizar (resolver_com val_ex) itens_ex cfg_ex = Inr (Some val_ex, FEASIBLE)
   \<and> Lin [(1, R 0 0)] EQ 1 \<in> set (restricoes (otimizar_model itens_ex cfg_ex))
   \<and> (3::nat) \<in> {1..<6}
   \<and> Lin [(1, R 0 3)] EQ 0 \<in> set (restricoes (otimizar_model itens_ex cfg_ex))
   \<and> orientacao val_ex 0 = Some 0 \<and> val_ex (R 0 3) = 0
   \<and> Lin (map (\<lambda>k. (1, R 1 k)) [0..<6]) EQ 1
        \<in> set (restricoes (otimizar_model itens_ex cfg_ex))
   \<and> (\<exists>!k. k < 6 \<and> val_ex (R 1 k) = 1)"
proof -
  note fixa = selecao_orientacao [of 0 itens_ex cfg_ex "resolver_com val_ex" val_ex FEASIBLE]
  note livre = selecao_orientacao [of 1 itens_ex cfg_ex "resolver_com val_ex" val_ex FEASIBLE]
  have h: "(0::nat) < length itens_ex" "item_o (itens_ex ! 0) = 0"
    "(1::nat) < length itens_ex" "item_o (itens_ex ! 1) \<noteq> 0" "(3::nat) \<in> {1..<6}"
    by (simp_all add: itens_ex_def)
  note s = resolver_com_correto [of val_ex] otimizar_ex
  have a: "Lin [(1, R 0 0)] EQ 1 \<in> set (restricoes (otimizar_model itens_ex cfg_ex))"
    "Lin [(1, R 0 3)] EQ 0 \<in> set (restricoes (otimizar_model itens_ex cfg_ex))"
    using fixa [OF h(1), THEN conjunct2, THEN conjunct1] h(2,5) by blast+
  have b: "orientacao val_ex 0 = Some 0" "val_ex (R 0 3) = 0"
    using fixa [OF h(1), THEN conjunct2, THEN conjunct2, THEN conjunct1] h(2,5) s by blast+
  have c: "Lin (map (\<lambda>k. (1, R 1 k)) [0..<6]) EQ 1
        \<in> set (restricoes (otimizar_model itens_ex cfg_ex))"
    using livre [OF h(3), THEN conjunct1] h(4) by blast
  have d: "\<exists>!k. k < 6 \<and> val_ex (R 1 k) = 1"
    using livre [OF h(3), THEN conjunct2, THEN conjunct2, THEN conjunct1] h(4) s by blast
  from h s a b c d show ?thesis by blast
qed

section \<open>No validation of the configuration\<close>

text \<open>
  C6, as the program has it. \<^verbatim>\<open>otimizar\<close> checks nothing about its input and never
  fails with \<open>InvalidConfiguration\<close>: the only exception that ends the call is the
  \<open>TypeError\<close> of the solver library. A pallet count below 1, a capacity that is not
  positive and an item with a dimension or a mass that is not positive are not
  rejected: with no pallet, and with integer capacities and item numbers in the 64-bit
  range whatever their sign, the model is built and handed to the solver, and the
  solver's status is returned, together with the solver when the status is \<open>OPTIMAL\<close> or
  \<open>FEASIBLE\<close>. A float as the mass capacity, as the preset \<^verbatim>\<open>Personalizada\<close> gives
  it, ends the call in \<open>TypeError\<close> as soon as there is an item and a pallet.
\<close>

theorem otimizar_sem_validacao:
  "(otimizar_dict solve itens d = Inl e \<longrightarrow> e = TypeError)
   \<and> (d_quantidade d < 1 \<or> numeros_int64 itens d \<longrightarrow>
        otimizar_dict solve itens d =
          Inr (if fst (solve (otimizar_model itens (config_int d))) = OPTIMAL \<or>
                  fst (solve (otimizar_model itens (config_int d))) = FEASIBLE
               then Some (snd (solve (otimizar_model itens (config_int d)))) else None,
               fst (solve (otimizar_model itens (config_int d)))))
   \<and> (itens \<noteq> [] \<and> 0 < d_quantidade d \<and> d_capacidade_massa d = PyFloat r \<longrightarrow>
        otimizar_dict solve itens d = Inl TypeError)"
proof (intro conjI impI)
  assume "otimizar_dict solve itens d = Inl e"
  then show "e = TypeError" by (rule otimizar_dict_Inl)
next
  assume "d_quantidade d < 1 \<or> numeros_int64 itens d"
  then have "otimizar_dict solve itens d = otimizar solve itens (config_int d)"
    by (rule otimizar_dict_aceito)
  then show "otimizar_dict solve itens d =
          Inr (if fst (solve (otimizar_model itens (config_int d))) = OPTIMAL \<or>
                  fst (solve (otimizar_model itens (config_int d))) = FEASIBLE
               then Some (snd (solve (otimizar_model itens (config_int d)))) else None,
               fst (solve (otimizar_model itens (config_int d))))"
    by (simp only: otimizar_eq)
next
  assume "itens \<noteq> [] \<and> 0 < d_quantidade d \<and> d_capacidade_massa d = PyFloat r"
  then show "otimizar_dict solve itens d = Inl TypeError"
    using float_recusado by blast
qed

theorem otimizar_sem_validacao_witness:
  "numeros_int64 itens_nulos dict_nula
   \<and> otimizar_dict (resolver_com val_nulo) itens_nulos dict_nula =
       Inr (Some val_nulo, FEASIBLE)
   \<and> itens_ex \<noteq> [] \<and> 0 < d_quantidade dict_personalizada
   \<and> d_capacidade_massa dict_personalizada = PyFloat 1000000
   \<and> otimizar_dict (resolver_com val_ex) itens_ex dict_personalizada = Inl TypeError"
proof -
  note nula = otimizar_sem_validacao [of "resolver_com val_nulo" itens_nulos dict_nula]
  note pers = otimizar_sem_validacao [of "resolver_com val_ex" itens_ex dict_personalizada
                 _ 1000000]
  have h: "itens_ex \<noteq> []" "0 < d_quantidade dict_personalizada"
    "d_capacidade_massa dict_personalizada = PyFloat 1000000"
    by (simp_all add: itens_ex_def dict_personalizada_def)
  have sat: "satisfaz val_nulo (otimizar_model itens_nulos (config_int dict_nula))"
    by (simp add: config_int_ex satisfaz_nulo)
  from nula numeros_nulos
  have "otimizar_dict (resolver_com val_nulo) itens_nulos dict_nula =
          Inr (if fst (resolver_com val_nulo (otimizar_model itens_nulos (config_int dict_nula)))
                    = OPTIMAL \<or>
                  fst (resolver_com val_nulo (otimizar_model itens_nulos (config_int dict_nula)))
                    = FEASIBLE
               then Some (snd (resolver_com val_nulo
                                 (otimizar_model itens_nulos (config_int dict_nula))))
               else None,
               fst (resolver_com val_nulo (otimizar_model itens_nulos (config_int dict_nula))))"
    by blast
  then have a: "otimizar_dict (resolver_com val_nulo) itens_nulos dict_nula =
       Inr (Some val_nulo, FEASIBLE)"
    by (simp add: resolver_com_def sat)
  from pers h have b: "otimizar_dict (resolver_com val_ex) itens_ex dict_personalizada =
       Inl TypeError"
    by blast
  from numeros_nulos a h b show ?thesis by (intro conjI)
qed

text \<open>
  C6 as the specification words it does not hold. With no pallet at all, and with a
  pallet of capacity 0 and an item of length 0 and mass 0, \<^verbatim>\<open>otimizar\<close> solves the
  model and returns the solution instead of failing.
\<close>

theorem otimizar_invalid_configuration_counterexample:
  "d_quantidade dict_zero < 1
   \<and> otimizar_dict (resolver_com val_sem_carga) itens_ex dict_zero
       = Inr (Some val_sem_carga, FEASIBLE)
   \<and> d_capacidade_massa dict_nula = PyInt 0 \<and> d_capacidade_volume dict_nula = PyInt 0
   \<and> item_l (itens_nulos ! 0) \<le> 0 \<and> item_mass (itens_nulos ! 0) \<le> 0
   \<and> otimizar_dict (resolver_com val_nulo) itens_nulos dict_nula =
       Inr (Some val_nulo, FEASIBLE)"
proof -
  have "d_quantidade dict_zero < 1"
    "d_capacidade_massa dict_nula = PyInt 0" "d_capacidade_volume dict_nula = PyInt 0"
    "item_l (itens_nulos ! 0) \<le> 0" "item_mass (itens_nulos ! 0) \<le> 0"
    by (simp_all add: dict_zero_def dict_nula_def itens_nulos_def)
  with otimizar_dict_zero otimizar_dict_nula show ?thesis by (intro conjI)
qed

section \<open>Metrics without a solver\<close>

text \<open>
  C10. Called without a solver (\<^verbatim>\<open>None\<close>), \<^verbatim>\<open>calcular_metricas\<close> returns the
  empty dictionary whatever the items and the pallet configuration are; in particular
  the division by the number of items is not reached.
\<close>

theorem calcular_metricas_sem_solver:
  "calcular_metricas itens None cfg = Inr None"
  by (simp add: calcular_metricas_def)

section \<open>Volume and mass metrics\<close>

text \<open>
  C9, as the program has it: with the condition that the item list is not empty. For
  a non-empty item list \<^verbatim>\<open>calcular_metricas\<close> returns metrics in which the
  number of used pallets is the number of pallets holding at least one item, the loaded
  volume is the sum of the volumes of the assigned items, the available volume is the
  volume capacity times the number of used pallets (both reported divided by
  \<open>SCALE_VOL\<close>), and the volume utilisation is loaded / available \<open>\<cdot>\<close> 100 when the
  available volume is positive and 0 otherwise, in particular 0 when no pallet is used.
  The mass metrics are computed in the same way with \<open>SCALE_MASS\<close>.
\<close>

theorem metricas_volume_massa:
  assumes "itens \<noteq> []"
  shows "\<exists>m. calcular_metricas itens (Some val) cfg = Inr (Some m)
     \<and> m_pallets_utilizados m =
         int (length (paletes_usadas val (length itens) (nat (quantidade cfg))))
     \<and> m_volume_utilizado m =
         real_of_int (carga_total item_vol itens val (nat (quantidade cfg)))
           / real_of_int SCALE_VOL
     \<and> m_volume_disponivel m =
         real_of_int (capacidade_volume cfg * m_pallets_utilizados m) / real_of_int SCALE_VOL
     \<and> m_taxa_utilizacao_volume m =
         (if 0 < capacidade_volume cfg * m_pallets_utilizados m
          then m_volume_utilizado m / m_volume_disponivel m * 100 else 0)
     \<and> (m_pallets_utilizados m = 0 \<longrightarrow> m_taxa_utilizacao_volume m = 0)
     \<and> m_peso_utilizado m =
         real_of_int (carga_total item_mass itens val (nat (quantidade cfg)))
           / real_of_int SCALE_MASS
     \<and> m_peso_disponivel m =
         real_of_int (capacidade_massa cfg * m_pallets_utilizados m) / real_of_int SCALE_MASS
     \<and> m_taxa_utilizacao_peso m =
         (if 0 < capacidade_massa cfg * m_pallets_utilizados m
          then m_peso_utilizado m / m_peso_disponivel m * 100 else 0)
     \<and> (m_pallets_utilizados m = 0 \<longrightarrow> m_taxa_utilizacao_peso m = 0)"
  unfolding calcular_metricas_eq [OF assms]
  by (simp add: SCALE_VOL_def SCALE_MASS_def)

theorem metricas_volume_massa_witness:
  "itens_ex \<noteq> []
   \<and> (\<exists>m. calcular_metricas itens_ex (Some val_ex) cfg_ex = Inr (Some m)
         \<and> m_pallets_utilizados m = 1
         \<and> m_volume_utilizado m = 0.18 \<and> m_volume_disponivel m = 2.16
         \<and> m_taxa_utilizacao_volume m = 25 / 3
         \<and> m_peso_utilizado m = 50 \<and> m_peso_disponivel m = 1000
         \<and> m_taxa_utilizacao_peso m = 5)
   \<and> (\<exists>m. calcular_metricas itens_ex (Some val_sem_carga) cfg_ex = Inr (Some m)
         \<and> m_pallets_utilizados m = 0
         \<and> m_taxa_utilizacao_volume m = 0 \<and> m_taxa_utilizacao_peso m = 0)"
proof -
  have ne: "itens_ex \<noteq> []"
    by (simp add: itens_ex_def)
  have cap: "capacidade_volume cfg_ex = 2160000" "capacidade_massa cfg_ex = 1000000"
    by (simp_all add: cfg_ex_def)
  from metricas_volume_massa [OF ne, of val_ex cfg_ex]
  obtain m where m: "calcular_metricas itens_ex (Some val_ex) cfg_ex = Inr (Some m)"
    "m_pallets_utilizados m = 1"
    "m_volume_utilizado m = 180000 / real_of_int SCALE_VOL"
    "m_volume_disponivel m =
       real_of_int (capacidade_volume cfg_ex * m_pallets_utilizados m) / real_of_int SCALE_VOL"
    "m_taxa_utilizacao_volume m =
       (if 0 < capacidade_volume cfg_ex * m_pallets_utilizados m
        then m_volume_utilizado m / m_volume_disponivel m * 100 else 0)"
    "m_peso_utilizado m = 50000 / real_of_int SCALE_MASS"
    "m_peso_disponivel m =
       real_of_int (capacidade_massa cfg_ex * m_pallets_utilizados m) / real_of_int SCALE_MASS"
    "m_taxa_utilizacao_peso m =
       (if 0 < capacidade_massa cfg_ex * m_pallets_utilizados m
        then m_peso_utilizado m / m_peso_disponivel m * 100 else 0)"
    unfolding metricas_ex_valores by auto
  have a: "m_volume_utilizado m = 0.18" "m_volume_disponivel m = 2.16"
    "m_peso_utilizado m = 50" "m_peso_disponivel m = 1000"
    by (simp_all add: m cap SCALE_VOL_def SCALE_MASS_def)
  have b: "m_taxa_utilizacao_volume m = 25 / 3" "m_taxa_utilizacao_peso m = 5"
    by (simp_all add: m(5,8) a cap m(2))
  from metricas_volume_massa [OF ne, of val_sem_carga cfg_ex]
  obtain m' where m': "calcular_metricas itens_ex (Some val_sem_carga) cfg_ex = Inr (Some m')"
    "m_pallets_utilizados m' = 0"
    "m_taxa_utilizacao_volume m' = 0" "m_taxa_utilizacao_peso m' = 0"
    unfolding metricas_ex_valores by auto
  from ne m(1,2) a b m' show ?thesis by blast
qed

text \<open>
  C9 as the specification words it does not hold for the empty item list: no pallet is
  used, and the call ends in the division by the number of items instead of returning
  a utilisation of 0.
\<close>

theorem metricas_volume_massa_counterexample:
  "paletes_usadas val_sem_carga (length ([] :: item list)) (nat (quantidade cfg_ex)) = []
   \<and> calcular_metricas [] (Some val_sem_carga) cfg_ex = Inl ZeroDivisionError"
proof -
  have "paletes_usadas val_sem_carga (length ([] :: item list)) (nat (quantidade cfg_ex)) = []"
    by code_simp
  moreover have "calcular_metricas [] (Some val_sem_carga) cfg_ex = Inl ZeroDivisionError"
    by (simp add: calcular_metricas_def Let_def split: prod.splits)
  ultimately show ?thesis by (intro conjI)
qed

section \<open>Item utilisation\<close>

text \<open>
  C7, as the program has it. The metrics computation has no rejection of an empty item
  list; the caller keeps the empty list away from it: \<^verbatim>\<open>main\<close> runs the optimisation
  and the metrics only for a non-empty item list (the scenario comparison of lines 773
  to 797 has the same gate), so that flow ends in no error. For every non-empty item
  list \<^verbatim>\<open>calcular_metricas\<close> returns metrics whose item utilisation is
  items loaded / items total \<open>\<cdot>\<close> 100; it is never negative, and it is at most 100 for
  every solution returned by \<^verbatim>\<open>otimizar\<close>.
\<close>

theorem utilizacao_de_itens:
  "main_metricas solve otimizar_btn [] cfg = None
   \<and> main_metricas solve otimizar_btn itens cfg \<noteq> Some (Inl e)
   \<and> (itens \<noteq> [] \<longrightarrow>
       (\<exists>m. calcular_metricas itens (Some val) cfg = Inr (Some m)
          \<and> m_itens_carregados m = carga_total (\<lambda>it. 1) itens val (nat (quantidade cfg))
          \<and> m_itens_total m = int (length itens)
          \<and> m_taxa_utilizacao_itens m =
               real_of_int (m_itens_carregados m) / real_of_int (m_itens_total m) * 100
          \<and> 0 \<le> m_taxa_utilizacao_itens m
          \<and> (solver_correto solve' \<and> otimizar solve' itens cfg = Inr (Some val, st) \<longrightarrow>
               m_taxa_utilizacao_itens m \<le> 100)))"
proof (intro conjI impI)
  show "main_metricas solve otimizar_btn [] cfg = None"
    by (simp add: main_metricas_def)
  show "main_metricas solve otimizar_btn itens cfg \<noteq> Some (Inl e)"
    by (rule main_metricas_sem_erro)
  assume ne: "itens \<noteq> []"
  let ?c = "carga_total (\<lambda>it. 1) itens val (nat (quantidade cfg))"
  have n: "0 < real (length itens)"
    using ne by simp
  have lo: "0 \<le> real_of_int ?c / real (length itens) * 100"
    using carga_itens_nonneg [of itens val "nat (quantidade cfg)"] by simp
  have hi: "real_of_int ?c / real (length itens) * 100 \<le> 100"
    if "solver_correto solve' \<and> otimizar solve' itens cfg = Inr (Some val, st)"
  proof -
    have "satisfaz val (otimizar_model itens cfg)"
      using that otimizar_satisfaz by blast
    from carga_itens_le [OF this] have "real_of_int ?c \<le> real (length itens)"
      by linarith
    with n show ?thesis by (simp add: field_simps)
  qed
  show "\<exists>m. calcular_metricas itens (Some val) cfg = Inr (Some m)
          \<and> m_itens_carregados m = ?c
          \<and> m_itens_total m = int (length itens)
          \<and> m_taxa_utilizacao_itens m =
               real_of_int (m_itens_carregados m) / real_of_int (m_itens_total m) * 100
          \<and> 0 \<le> m_taxa_utilizacao_itens m
          \<and> (solver_correto solve' \<and> otimizar solve' itens cfg = Inr (Some val, st) \<longrightarrow>
               m_taxa_utilizacao_itens m \<le> 100)"
    unfolding calcular_metricas_eq [OF ne] using lo hi by simp
qed

theorem utilizacao_de_itens_witness:
  "itens_ex \<noteq> []
   \<and> solver_correto (resolver_com val_ex)
   \<and> otimizar (resolver_com val_ex) itens_ex cfg_ex = Inr (Some val_ex, FEASIBLE)
   \<and> main_metricas (resolver_com val_ex) True [] cfg_ex = None
   \<and> (\<exists>m. calcular_metricas itens_ex (Some val_ex) cfg_ex = Inr (Some m)
          \<and> m_itens_carregados m = 2 \<and> m_itens_total m = 3
          \<and> m_taxa_utilizacao_itens m = 200 / 3
          \<and> 0 \<le> m_taxa_utilizacao_itens m \<and> m_taxa_utilizacao_itens m \<le> 100)"
proof -
  have ne: "itens_ex \<noteq> []"
    by (simp add: itens_ex_def)
  have len: "int (length itens_ex) = 3"
    by (simp add: itens_ex_def)
  note s = resolver_com_correto [of val_ex] otimizar_ex
  note inst = utilizacao_de_itens [of "resolver_com val_ex" True cfg_ex itens_ex
                 StopIteration val_ex "resolver_com val_ex" FEASIBLE]
  from inst have g: "main_metricas (resolver_com val_ex) True [] cfg_ex = None"
    by blast
  from inst ne s obtain m where m:
    "calcular_metricas itens_ex (Some val_ex) cfg_ex = Inr (Some m)"
    "m_itens_carregados m = 2" "m_itens_total m = 3"
    "m_taxa_utilizacao_itens m =
       real_of_int (m_itens_carregados m) / real_of_int (m_itens_total m) * 100"
    "0 \<le> m_taxa_utilizacao_itens m" "m_taxa_utilizacao_itens m \<le> 100"
    unfolding metricas_ex_valores len by blast
  have "m_taxa_utilizacao_itens m = 200 / 3"
    by (simp add: m(2,3,4))
  with ne s g m show ?thesis by blast
qed

text \<open>
  C7 as the specification words it does not hold of \<^verbatim>\<open>calcular_metricas\<close> itself:
  called with a solver and an empty item list it divides by the number of items.
\<close>

theorem calcular_metricas_lista_vazia_counterexample:
  "calcular_metricas [] (Some val_ex) cfg_ex = Inl ZeroDivisionError"
  by (simp add: calcular_metricas_def Let_def split: prod.splits)

section \<open>The layout of the figure\<close>

text \<open>
  C8. Whenever every item read as assigned to a pallet has an orientation (as in every
  solution returned by \<^verbatim>\<open>otimizar\<close>), \<^verbatim>\<open>criar_visualizacao_3d\<close> returns, and the
  figure is a function of the items, the values and the configuration alone: pallet by
  pallet in ascending order, the base of the pallet and then one box per assigned item
  in ascending item index. The box of an item spans \<open>[0, l'] \<times> [0, w'] \<times> [0, h']\<close> moved
  along \<open>x\<close> by the offset of its pallet and along \<open>z\<close> by the cursor, the sum of the
  heights \<open>h'\<close> of the assigned items of lower index on the same pallet; \<open>y\<close> is not
  moved. The offset of pallet \<open>p\<close> is \<open>2.5 \<cdot> p\<close>, so distinct pallets differ in \<open>x\<close> only.
\<close>

theorem visualizacao_torre:
  assumes "\<forall>p<nat (quantidade cfg). \<forall>i \<in> set (itens_na_palete val (length itens) p).
             orientacao val i \<noteq> None"
  shows "criar_visualizacao_3d itens val cfg =
           Inr (concat (map (torre_palete itens val) [0..<nat (quantidade cfg)]))
       \<and> mesh_x (caixa_3d ox z (l, w, h) i) = map (\<lambda>x. ox + x) [0, l, l, 0, 0, l, l, 0]
       \<and> mesh_y (caixa_3d ox z (l, w, h) i) = [0, 0, w, w, 0, 0, w, w]
       \<and> mesh_z (caixa_3d ox z (l, w, h) i) = map (\<lambda>x. z + x) [0, 0, 0, 0, h, h, h, h]
       \<and> (p \<noteq> q \<longrightarrow> real p * 2.5 \<noteq> real q * 2.5)"
proof -
  have "criar_visualizacao_3d itens val cfg =
           Inr (concat (map (torre_palete itens val) [0..<nat (quantidade cfg)]))"
    unfolding criar_visualizacao_3d_def
    using percorrer_paletes_eq [of "[0..<nat (quantidade cfg)]" val itens "[]"] assms
    by simp
  then show ?thesis by (simp add: caixa_3d_def)
qed

theorem visualizacao_torre_witness:
  "itens_na_palete val_ex (length itens_ex) 0 = [0, 1]
   \<and> itens_na_palete val_ex (length itens_ex) 1 = []
   \<and> orientacao val_ex 0 = Some 0 \<and> orientacao val_ex 1 = Some 3
   \<and> criar_visualizacao_3d itens_ex val_ex cfg_ex =
       Inr [base_palete 0 0, caixa_3d 0 0 (0.5, 0.4, 0.3) 0,
            caixa_3d 0 0.3 (0.5, 0.4, 0.6) 1, base_palete 2.5 1]
   \<and> cursor_z itens_ex val_ex 0 1 = 0.3"
proof -
  have hyp: "\<forall>p<nat (quantidade cfg_ex).
      \<forall>i \<in> set (itens_na_palete val_ex (length itens_ex) p). orientacao val_ex i \<noteq> None"
    by (rule solucao_orientada [OF resolver_com_correto otimizar_ex])
  from visualizacao_torre [OF hyp, THEN conjunct1]
  have "criar_visualizacao_3d itens_ex val_ex cfg_ex =
       Inr [base_palete 0 0, caixa_3d 0 0 (0.5, 0.4, 0.3) 0,
            caixa_3d 0 0.3 (0.5, 0.4, 0.6) 1, base_palete 2.5 1]"
    by (simp only: layout_ex)
  with leitura_ex cursor_ex show ?thesis by simp
qed

end
